theory Spec2Isabelle
  imports Main "HOL-Library.Word"
begin

section \<open>Python values used by the message model\<close>

type_synonym byte = "8 word"
type_synonym bytes = "byte list"

text \<open>
  The exceptions the modelled code can raise. \<open>ValueError\<close> carries the message of
  the \<^verbatim>\<open>raise ValueError(...)\<close> statements of \<^verbatim>\<open>message.py\<close> and \<^verbatim>\<open>adapter.py\<close>;
  \<open>AttributeError\<close> names the missing attribute; \<open>TypeError\<close> stands for a call of
  a library function on \<^verbatim>\<open>None\<close>; \<open>IOError\<close> is a failed file read or network fetch
  and carries the path or URL; \<open>SendError\<close> is a failed platform call.
\<close>

datatype error =
    ValueError string
  | AttributeError string
  | TypeError
  | IOError string
  | SendError

text \<open>
  Python truthiness of an optional \<^verbatim>\<open>str\<close> or \<^verbatim>\<open>bytes\<close> value, as tested by
  \<^verbatim>\<open>if url:\<close>, \<^verbatim>\<open>if self.data:\<close> and \<^verbatim>\<open>x or y\<close>: \<^verbatim>\<open>None\<close> and the empty
  sequence are both false.
\<close>

definition truthy :: "'a list option \<Rightarrow> bool" where
  "truthy x = (case x of None \<Rightarrow> False | Some v \<Rightarrow> v \<noteq> [])"

text \<open>How an f-string renders an optional \<^verbatim>\<open>str\<close>.\<close>

definition fmt_opt :: "string option \<Rightarrow> string" where
  "fmt_opt x = (case x of None \<Rightarrow> ''None'' | Some s \<Rightarrow> s)"

text \<open>
  The values that occur in the dictionaries built by \<^verbatim>\<open>to_dict\<close> and by the Gemini
  adapter. A dictionary keeps its insertion order, so it is an association list.
\<close>

datatype pyval =
    PNone
  | PStr string
  | PInt int
  | PList "pyval list"
  | PDict "(string \<times> pyval) list"

definition opt_str :: "string option \<Rightarrow> pyval" where
  "opt_str x = (case x of None \<Rightarrow> PNone | Some s \<Rightarrow> PStr s)"

section \<open>MediaMessage\<close>

text \<open>
  \<^verbatim>\<open>MediaMessage\<close> declares no \<^verbatim>\<open>to_plain\<close>, which \<^verbatim>\<open>MessageElement\<close> marks abstract,
  so only its four subclasses can be instantiated. \<open>kind\<close> is the class of the instance.
\<close>

datatype media_kind = Voice | Image | File | Video

record media =
  kind :: media_kind
  url :: "string option"
  path :: "string option"
  data :: "bytes option"
  format :: "string option"
  resource_type :: string

definition from_url :: "media \<Rightarrow> string option \<Rightarrow> string option \<Rightarrow> media" where
  "from_url self u f = self\<lparr>url := u, path := None, data := None, format := f\<rparr>"

definition from_path :: "media \<Rightarrow> string option \<Rightarrow> string option \<Rightarrow> media" where
  "from_path self p f = self\<lparr>path := p, url := None, data := None, format := f\<rparr>"

definition from_data :: "media \<Rightarrow> bytes option \<Rightarrow> string option \<Rightarrow> media" where
  "from_data self d f = self\<lparr>data := d, format := f, url := None, path := None\<rparr>"

text \<open>
  \<^verbatim>\<open>MediaMessage.__init__\<close>. The instance attribute \<^verbatim>\<open>resource_type = "media"\<close> is
  assigned for every subclass, whatever its class attribute says.
\<close>

definition MediaMessage_init ::
  "media_kind \<Rightarrow> string option \<Rightarrow> string option \<Rightarrow> bytes option \<Rightarrow> string option
    \<Rightarrow> error + media" where
  "MediaMessage_init k u p d f =
     (let self = \<lparr>kind = k, url = u, path = p, data = d, format = f,
                  resource_type = ''media''\<rparr>
      in if truthy u then Inr (from_url self u f)
         else if truthy p then Inr (from_path self p f)
         else if truthy d \<and> truthy f then Inr (from_data self d f)
         else Inl (ValueError ''Must provide either url, path, or data + format.''))"

text \<open>How many of the three representations an instance holds.\<close>

definition held :: "media \<Rightarrow> nat" where
  "held m = (if truthy (url m) then 1 else 0) + (if truthy (path m) then 1 else 0)
            + (if truthy (data m) then 1 else 0)"

text \<open>How many of the three representations a constructor call supplies.\<close>

definition supplied :: "string option \<Rightarrow> string option \<Rightarrow> bytes option \<Rightarrow> string option \<Rightarrow> nat" where
  "supplied u p d f = (if truthy u then 1 else 0) + (if truthy p then 1 else 0)
            + (if truthy d \<and> truthy f then 1 else 0)"

section \<open>Library functions the code calls\<close>

text \<open>
  \<^verbatim>\<open>base64.b64encode(data).decode()\<close>: the standard alphabet of RFC 4648, three bytes
  to four characters, padded with \<^verbatim>\<open>=\<close>.
\<close>

definition b64_alphabet :: string where
  "b64_alphabet = ''ABCDEFGHIJKLMNOPQRSTUVWXYZabcdefghijklmnopqrstuvwxyz0123456789+/''"

definition b64_char :: "nat \<Rightarrow> char" where
  "b64_char i = b64_alphabet ! (i mod 64)"

fun b64encode :: "bytes \<Rightarrow> string" where
  "b64encode (a # b # c # rest) =
     (let n = unat a * 65536 + unat b * 256 + unat c
      in b64_char (n div 262144) # b64_char (n div 4096) # b64_char (n div 64) # b64_char n
         # b64encode rest)"
| "b64encode [a, b] =
     (let n = unat a * 65536 + unat b * 256
      in [b64_char (n div 262144), b64_char (n div 4096), b64_char (n div 64), CHR ''=''])"
| "b64encode [a] =
     (let n = unat a * 65536
      in [b64_char (n div 262144), b64_char (n div 4096), CHR ''='', CHR ''=''])"
| "b64encode [] = []"

text \<open>
  Decoding of canonical base64 text, as \<^verbatim>\<open>base64.b64decode\<close> does it on the output of
  the encoder; \<open>None\<close> is \<^verbatim>\<open>binascii.Error\<close>.
\<close>

fun index_of :: "'a \<Rightarrow> 'a list \<Rightarrow> nat option" where
  "index_of x [] = None"
| "index_of x (y # ys) = (if x = y then Some 0 else map_option Suc (index_of x ys))"

definition b64_index :: "char \<Rightarrow> nat option" where
  "b64_index c = index_of c b64_alphabet"

definition b64_group :: "char \<Rightarrow> char \<Rightarrow> char \<Rightarrow> char \<Rightarrow> nat option" where
  "b64_group c1 c2 c3 c4 =
     (case (b64_index c1, b64_index c2, b64_index c3, b64_index c4) of
        (Some s1, Some s2, Some s3, Some s4) \<Rightarrow> Some (s1 * 262144 + s2 * 4096 + s3 * 64 + s4)
      | _ \<Rightarrow> None)"

fun b64decode :: "string \<Rightarrow> bytes option" where
  "b64decode [] = Some []"
| "b64decode [c1, c2, c3, c4] =
     (if c3 = CHR ''='' \<and> c4 = CHR ''='' then
        (case b64_group c1 c2 CHR ''A'' CHR ''A'' of
           None \<Rightarrow> None
         | Some n \<Rightarrow> Some [word_of_nat (n div 65536)])
      else if c4 = CHR ''='' then
        (case b64_group c1 c2 c3 CHR ''A'' of
           None \<Rightarrow> None
         | Some n \<Rightarrow> Some [word_of_nat (n div 65536), word_of_nat (n div 256)])
      else
        (case b64_group c1 c2 c3 c4 of
           None \<Rightarrow> None
         | Some n \<Rightarrow> Some [word_of_nat (n div 65536), word_of_nat (n div 256), word_of_nat n]))"
| "b64decode (c1 # c2 # c3 # c4 # rest) =
     (case b64_group c1 c2 c3 c4 of
        None \<Rightarrow> None
      | Some n \<Rightarrow>
          (case b64decode rest of
             None \<Rightarrow> None
           | Some bs \<Rightarrow>
               Some (word_of_nat (n div 65536) # word_of_nat (n div 256) # word_of_nat n # bs)))"
| "b64decode _ = None"

text \<open>\<^verbatim>\<open>s.split(c)\<close> for a one-character separator: the result is never empty.\<close>

fun split_chr :: "char \<Rightarrow> string \<Rightarrow> string list" where
  "split_chr c [] = [[]]"
| "split_chr c (x # xs) =
     (if x = c then [] # split_chr c xs
      else (case split_chr c xs of
              [] \<Rightarrow> [[x]]
            | y # ys \<Rightarrow> (x # y) # ys))"

text \<open>
  \<^verbatim>\<open>str.strip()\<close> with no argument removes the characters for which \<^verbatim>\<open>str.isspace\<close>
  holds. A character of a \<^verbatim>\<open>str\<close> is a code point, and a \<open>char\<close> of the model is the
  code point of that number, below 256. The whitespace code points below 256 are 9 to 13,
  28 to 32, 133 (U+0085) and 160 (U+00A0).
\<close>

definition is_space :: "char \<Rightarrow> bool" where
  "is_space c =
     (let n = (of_char c :: nat)
      in (9 \<le> n \<and> n \<le> 13) \<or> (28 \<le> n \<and> n \<le> 32) \<or> n = 133 \<or> n = 160)"

definition strip :: "string \<Rightarrow> string" where
  "strip s = rev (dropWhile is_space (rev (dropWhile is_space s)))"

section \<open>The environment of a media resource\<close>

text \<open>
  What the lazy loaders touch: the file system (\<^verbatim>\<open>aiofiles.open\<close>, the temporary file of
  \<^verbatim>\<open>get_path\<close>), the network (\<^verbatim>\<open>aiohttp\<close>) and \<^verbatim>\<open>magic.from_buffer\<close>. A path or URL
  that maps to \<open>None\<close> cannot be read. \<open>reads\<close> and \<open>fetches\<close> count the calls of
  \<^verbatim>\<open>aiofiles.open\<close> and of \<^verbatim>\<open>session.get\<close>; \<open>temps\<close> counts the temporary files
  created so far and numbers the next one.
\<close>

record world =
  files :: "string \<Rightarrow> bytes option"
  remote :: "string \<Rightarrow> bytes option"
  magic_mime :: "bytes \<Rightarrow> string"
  reads :: nat
  fetches :: nat
  temps :: nat

text \<open>The name of the \<open>n\<close>-th temporary file: never empty, different for each \<open>n\<close>.\<close>

definition tmp_name :: "nat \<Rightarrow> string" where
  "tmp_name n = ''/tmp/tmp'' @ replicate n (CHR ''x'')"

type_synonym 'a outcome = "(error + 'a) \<times> media \<times> world"

text \<open>\<^verbatim>\<open>MediaMessage._detect_format\<close>.\<close>

definition detect_format :: "media \<Rightarrow> world \<Rightarrow> error + media" where
  "detect_format self w =
     (if truthy (format self) then Inr self
      else (case data self of
              None \<Rightarrow> Inl TypeError
            | Some bs \<Rightarrow>
                (let mime_type = magic_mime w bs
                 in Inr (self\<lparr>format := Some (last (split_chr (CHR ''/'') mime_type)),
                              resource_type := hd (split_chr (CHR ''/'') mime_type)\<rparr>))))"

text \<open>\<^verbatim>\<open>MediaMessage._load_data_from_path\<close>.\<close>

definition load_data_from_path :: "media \<Rightarrow> world \<Rightarrow> unit outcome" where
  "load_data_from_path self w =
     (case path self of
        None \<Rightarrow> (Inl TypeError, self, w)
      | Some p \<Rightarrow>
          (let w1 = w\<lparr>reads := Suc (reads w)\<rparr>
           in (case files w p of
                 None \<Rightarrow> (Inl (IOError p), self, w1)
               | Some bs \<Rightarrow>
                   (let self1 = self\<lparr>data := Some bs\<rparr>
                    in (case detect_format self1 w1 of
                          Inl e \<Rightarrow> (Inl e, self1, w1)
                        | Inr self2 \<Rightarrow> (Inr (), self2, w1))))))"

text \<open>\<^verbatim>\<open>MediaMessage._load_data_from_url\<close>.\<close>

definition load_data_from_url :: "media \<Rightarrow> world \<Rightarrow> unit outcome" where
  "load_data_from_url self w =
     (case url self of
        None \<Rightarrow> (Inl TypeError, self, w)
      | Some u \<Rightarrow>
          (let w1 = w\<lparr>fetches := Suc (fetches w)\<rparr>
           in (case remote w u of
                 None \<Rightarrow> (Inl (IOError u), self, w1)
               | Some bs \<Rightarrow>
                   (let self1 = self\<lparr>data := Some bs\<rparr>
                    in (case detect_format self1 w1 of
                          Inl e \<Rightarrow> (Inl e, self1, w1)
                        | Inr self2 \<Rightarrow> (Inr (), self2, w1))))))"

text \<open>The f-string that \<^verbatim>\<open>get_url\<close> returns when the instance has no URL.\<close>

definition data_url :: "media \<Rightarrow> error + string" where
  "data_url self =
     (case data self of
        None \<Rightarrow> Inl TypeError
      | Some bs \<Rightarrow>
          Inr (''data:'' @ resource_type self @ ''/'' @ fmt_opt (format self) @ '';base64,''
               @ b64encode bs))"

text \<open>\<^verbatim>\<open>MediaMessage.get_url\<close>.\<close>

definition get_url :: "media \<Rightarrow> world \<Rightarrow> string outcome" where
  "get_url self w =
     (if truthy (url self) then (Inr (fmt_opt (url self)), self, w)
      else
        (case (if \<not> truthy (data self)
               then (if truthy (path self) then load_data_from_path self w
                     else (Inl (ValueError ''No available media source''), self, w))
               else (Inr (), self, w)) of
           (Inl e, self1, w1) \<Rightarrow> (Inl e, self1, w1)
         | (Inr _, self1, w1) \<Rightarrow> (data_url self1, self1, w1)))"

text \<open>
  \<^verbatim>\<open>MediaMessage.get_path\<close>. The temporary file is created under a fresh name, the bytes
  are written to it, and the name is stored in \<^verbatim>\<open>self.path\<close>.
\<close>

definition get_path :: "media \<Rightarrow> world \<Rightarrow> string outcome" where
  "get_path self w =
     (if truthy (path self) then (Inr (fmt_opt (path self)), self, w)
      else
        (case (if \<not> truthy (data self)
               then (if truthy (url self) then load_data_from_url self w
                     else (Inl (ValueError ''No available media source''), self, w))
               else (Inr (), self, w)) of
           (Inl e, self1, w1) \<Rightarrow> (Inl e, self1, w1)
         | (Inr _, self1, w1) \<Rightarrow>
             (case data self1 of
                None \<Rightarrow> (Inl TypeError, self1, w1)
              | Some bs \<Rightarrow>
                  (let name = tmp_name (temps w1)
                   in (Inr name, self1\<lparr>path := Some name\<rparr>,
                       w1\<lparr>files := (files w1)(name \<mapsto> bs), temps := Suc (temps w1)\<rparr>)))))"

text \<open>
  \<^verbatim>\<open>return self.data\<close>. The loaders store the bytes before they return, so the
  attribute is never \<^verbatim>\<open>None\<close> where \<^verbatim>\<open>get_data\<close> returns it.
\<close>

definition return_data :: "media \<Rightarrow> error + bytes" where
  "return_data self = (case data self of None \<Rightarrow> Inl TypeError | Some bs \<Rightarrow> Inr bs)"

text \<open>\<^verbatim>\<open>MediaMessage.get_data\<close>.\<close>

definition get_data :: "media \<Rightarrow> world \<Rightarrow> bytes outcome" where
  "get_data self w =
     (if truthy (data self) then (return_data self, self, w)
      else if truthy (path self) then
        (case load_data_from_path self w of
           (Inl e, self1, w1) \<Rightarrow> (Inl e, self1, w1)
         | (Inr _, self1, w1) \<Rightarrow> (return_data self1, self1, w1))
      else if truthy (url self) then
        (case load_data_from_url self w of
           (Inl e, self1, w1) \<Rightarrow> (Inl e, self1, w1)
         | (Inr _, self1, w1) \<Rightarrow> (return_data self1, self1, w1))
      else (Inl (ValueError ''No available media source''), self, w))"

text \<open>
  The \<^verbatim>\<open>to_dict\<close> methods of \<^verbatim>\<open>MediaMessage\<close> and of its subclasses. They have the
  type of the other methods: a result, the instance and the environment they leave.
  \<^verbatim>\<open>VideoElement.to_dict\<close> reads \<^verbatim>\<open>self.file\<close>, an attribute that no constructor
  assigns.
\<close>

definition data_field :: "media \<Rightarrow> pyval" where
  "data_field self =
     (if truthy (data self) then (case data self of None \<Rightarrow> PNone | Some bs \<Rightarrow> PStr (b64encode bs))
      else PNone)"

definition MediaMessage_to_dict :: "media \<Rightarrow> (string \<times> pyval) list" where
  "MediaMessage_to_dict self =
     [(''type'', PStr (resource_type self)), (''url'', opt_str (url self)),
      (''path'', opt_str (path self)), (''data'', data_field self),
      (''format'', opt_str (format self))]"

definition media_to_dict :: "media \<Rightarrow> world \<Rightarrow> ((string \<times> pyval) list) outcome" where
  "media_to_dict self w =
     (case kind self of
        Voice \<Rightarrow> (Inr [(''type'', PStr ''voice''), (''url'', opt_str (url self)),
                       (''path'', opt_str (path self)), (''data'', data_field self),
                       (''format'', opt_str (format self))], self, w)
      | Image \<Rightarrow> (Inr [(''type'', PStr ''image''), (''url'', opt_str (url self)),
                       (''path'', opt_str (path self)), (''data'', data_field self),
                       (''format'', opt_str (format self))], self, w)
      | File \<Rightarrow> (Inr [(''type'', PStr ''file''), (''url'', opt_str (url self)),
                      (''path'', opt_str (path self)), (''data'', data_field self),
                      (''format'', opt_str (format self))], self, w)
      | Video \<Rightarrow> (Inl (AttributeError ''file''), self, w))"

text \<open>The text of the \<^verbatim>\<open>type\<close> entry that each subclass writes.\<close>

definition type_tag :: "media_kind \<Rightarrow> string" where
  "type_tag k = (case k of Voice \<Rightarrow> ''voice'' | Image \<Rightarrow> ''image'' | File \<Rightarrow> ''file''
                 | Video \<Rightarrow> ''video'')"

text \<open>
  The public methods of a media element, and a run of calls on one instance: each call
  returns a value or raises, and leaves the instance and the environment to the next.
\<close>

datatype media_call = GetUrl | GetPath | GetData | ToDict

datatype answer = AStr string | ABytes bytes | ADict "(string \<times> pyval) list"

definition answered :: "('a \<Rightarrow> answer) \<Rightarrow> 'a outcome \<Rightarrow> answer outcome" where
  "answered c r = (case r of (Inl e, m, w) \<Rightarrow> (Inl e, m, w) | (Inr v, m, w) \<Rightarrow> (Inr (c v), m, w))"

fun call_method :: "media_call \<Rightarrow> media \<Rightarrow> world \<Rightarrow> answer outcome" where
  "call_method GetUrl self w = answered AStr (get_url self w)"
| "call_method GetPath self w = answered AStr (get_path self w)"
| "call_method GetData self w = answered ABytes (get_data self w)"
| "call_method ToDict self w = answered ADict (media_to_dict self w)"

fun call_methods :: "media_call list \<Rightarrow> media \<Rightarrow> world \<Rightarrow> media \<times> world" where
  "call_methods [] self w = (self, w)"
| "call_methods (c # cs) self w =
     (case call_method c self w of (_, self1, w1) \<Rightarrow> call_methods cs self1 w1)"

section \<open>Message elements and IMMessage\<close>

text \<open>
  \<^verbatim>\<open>ChatSender\<close> is declared in \<^verbatim>\<open>kirara_ai.im.sender\<close>; the fields are the ones
  \<^verbatim>\<open>message.py\<close> and the Telegram adapter read. \<open>OtherChat s\<close> stands for any
  \<^verbatim>\<open>chat_type\<close> that is neither \<^verbatim>\<open>ChatType.C2C\<close> nor \<^verbatim>\<open>ChatType.GROUP\<close>; \<open>s\<close>
  is the text an f-string renders it to.
\<close>

datatype ChatType = C2C | GROUP | OtherChat string

record ChatSender =
  chat_type :: ChatType
  user_id :: "string option"
  group_id :: "string option"
  display_name :: "string option"

datatype element =
    TextMessage string
  | Media media
  | AtElement string string
  | MentionElement ChatSender
  | ReplyElement string
  | JsonElement string
  | FaceElement string

text \<open>\<^verbatim>\<open>x or y\<close> on optional strings.\<close>

definition py_or :: "string option \<Rightarrow> string option \<Rightarrow> string option" where
  "py_or x y = (if truthy x then x else y)"

fun to_plain :: "element \<Rightarrow> string" where
  "to_plain (TextMessage t) = t"
| "to_plain (Media m) =
     (case kind m of
        Voice \<Rightarrow> ''[VoiceMessage]''
      | Image \<Rightarrow> ''[ImageMessage]''
      | File \<Rightarrow> ''[File:'' @ fmt_opt (py_or (path m) (py_or (url m) (Some ''unnamed''))) @ '']''
      | Video \<Rightarrow> ''[Video Message]'')"
| "to_plain (AtElement uid nickname) = ''@'' @ fmt_opt (py_or (Some nickname) (Some uid))"
| "to_plain (MentionElement target) = ''@'' @ fmt_opt (py_or (display_name target) (user_id target))"
| "to_plain (ReplyElement message_id) = ''[Reply:'' @ message_id @ '']''"
| "to_plain (JsonElement d) = ''[JSON Message]''"
| "to_plain (FaceElement face_id) = ''[Face:'' @ face_id @ '']''"

fun is_TextMessage :: "element \<Rightarrow> bool" where
  "is_TextMessage (TextMessage t) = True"
| "is_TextMessage _ = False"

record IMMessage =
  sender :: ChatSender
  message_elements :: "element list"
  raw_message :: "pyval option"

text \<open>The loop of \<^verbatim>\<open>IMMessage.content\<close>; \<open>acc\<close> is the local variable \<^verbatim>\<open>content\<close>.\<close>

fun content_loop :: "string \<Rightarrow> element list \<Rightarrow> string" where
  "content_loop acc [] = acc"
| "content_loop acc (e # es) =
     (let acc1 = acc @ to_plain e
      in content_loop (if is_TextMessage e then acc1 @ [CHR 0x0A] else acc1) es)"

definition content :: "IMMessage \<Rightarrow> string" where
  "content msg = strip (content_loop [] (message_elements msg))"

text \<open>
  The claim's reading of the text that \<^verbatim>\<open>content\<close> trims: every element contributes its
  plain text, a text element a line break after it, in sequence order.
\<close>

definition joined_plain :: "element list \<Rightarrow> string" where
  "joined_plain es =
     concat (map (\<lambda>e. to_plain e @ (if is_TextMessage e then [CHR 0x0A] else [])) es)"

section \<open>Telegram adapter: send_message\<close>

text \<open>
  The calls \<^verbatim>\<open>send_message\<close> makes on \<^verbatim>\<open>self.application.bot\<close>, each with the chat id.
  The platform decides which calls succeed: \<open>ok log c\<close> says whether the call \<open>c\<close>
  succeeds after the calls of \<open>log\<close> have been delivered, so the same call can succeed once
  and fail later. A call that does not succeed raises.
  \<open>markdownify\<close> is \<^verbatim>\<open>telegramify_markdown.markdownify\<close>. The pause before a text that
  is not the first element (\<^verbatim>\<open>asyncio.sleep\<close>) makes no platform call and is left out.
\<close>

datatype bot_call =
    SendChatAction "string option" string
  | SendMessage "string option" string
  | SendPhoto "string option" "string option"
  | SendVoice "string option" "string option"

text \<open>One awaited platform call: it is appended to the log of delivered calls, or raises.\<close>

definition bot_await ::
  "(bot_call list \<Rightarrow> bot_call \<Rightarrow> bool) \<Rightarrow> bot_call \<Rightarrow> bot_call list
    \<Rightarrow> error option \<times> bot_call list" where
  "bot_await ok c log = (if ok log c then (None, log @ [c]) else (Some SendError, log))"

text \<open>The platform calls for one element, in the order the loop body makes them.\<close>

fun element_calls :: "(string \<Rightarrow> string) \<Rightarrow> string option \<Rightarrow> element \<Rightarrow> bot_call list" where
  "element_calls markdownify chat_id (TextMessage t) =
     [SendChatAction chat_id ''typing'', SendMessage chat_id (markdownify t)]"
| "element_calls markdownify chat_id (Media m) =
     (case kind m of
        Image \<Rightarrow> [SendChatAction chat_id ''upload_photo'', SendPhoto chat_id (url m)]
      | Voice \<Rightarrow> [SendChatAction chat_id ''upload_voice'', SendVoice chat_id (url m)]
      | _ \<Rightarrow> [])"
| "element_calls markdownify chat_id _ = []"

text \<open>A sequence of awaited calls: the first one that raises ends the sequence.\<close>

fun await_all ::
  "(bot_call list \<Rightarrow> bot_call \<Rightarrow> bool) \<Rightarrow> bot_call list \<Rightarrow> bot_call list
    \<Rightarrow> error option \<times> bot_call list" where
  "await_all ok [] log = (None, log)"
| "await_all ok (c # cs) log =
     (case bot_await ok c log of
        (Some e, log1) \<Rightarrow> (Some e, log1)
      | (None, log1) \<Rightarrow> await_all ok cs log1)"

text \<open>The \<^verbatim>\<open>for element in message.message_elements\<close> loop: no exception is caught.\<close>

fun send_elements ::
  "(bot_call list \<Rightarrow> bot_call \<Rightarrow> bool) \<Rightarrow> (string \<Rightarrow> string) \<Rightarrow> string option \<Rightarrow> element list
    \<Rightarrow> bot_call list \<Rightarrow> error option \<times> bot_call list" where
  "send_elements ok markdownify chat_id [] log = (None, log)"
| "send_elements ok markdownify chat_id (e # es) log =
     (case await_all ok (element_calls markdownify chat_id e) log of
        (Some err, log1) \<Rightarrow> (Some err, log1)
      | (None, log1) \<Rightarrow> send_elements ok markdownify chat_id es log1)"

definition send_message ::
  "(bot_call list \<Rightarrow> bot_call \<Rightarrow> bool) \<Rightarrow> (string \<Rightarrow> string) \<Rightarrow> IMMessage \<Rightarrow> ChatSender
    \<Rightarrow> error option \<times> bot_call list" where
  "send_message ok markdownify message recipient =
     (case chat_type recipient of
        C2C \<Rightarrow> send_elements ok markdownify (user_id recipient) (message_elements message) []
      | GROUP \<Rightarrow> send_elements ok markdownify (group_id recipient) (message_elements message) []
      | OtherChat s \<Rightarrow> (Some (ValueError (''Unsupported chat type: '' @ s)), []))"

section \<open>Gemini adapter: the wire request of chat\<close>

text \<open>
  \<^verbatim>\<open>LLMChatRequest\<close> is declared in \<^verbatim>\<open>framework.llm.format.request\<close>; the fields are the
  ones \<^verbatim>\<open>GeminiAdapter.chat\<close> reads. The numeric parameters are passed through as they
  are, so they are values of \<open>pyval\<close>.
\<close>

record LLMChatMessage =
  role :: string
  text_content :: string

record LLMChatRequest =
  model :: string
  messages :: "LLMChatMessage list"
  temperature :: pyval
  top_p :: pyval
  max_tokens :: pyval
  stop :: "string list option"

definition opt_list :: "string list option \<Rightarrow> pyval" where
  "opt_list x = (case x of None \<Rightarrow> PNone | Some xs \<Rightarrow> PList (map PStr xs))"

text \<open>The dictionary \<^verbatim>\<open>data\<close> as first assigned.\<close>

definition chat_data :: "LLMChatRequest \<Rightarrow> (string \<times> pyval) list" where
  "chat_data req =
     [(''contents'',
         PList (map (\<lambda>msg. PDict [(''role'', PStr (role msg)),
                                  (''parts'', PList [PDict [(''text'', PStr (text_content msg))]])])
                    (messages req))),
      (''generationConfig'',
         PDict [(''temperature'', temperature req), (''topP'', top_p req), (''topK'', PInt 40),
                (''maxOutputTokens'', max_tokens req), (''stopSequences'', opt_list (stop req))]),
      (''safetySettings'', PList [])]"

text \<open>\<^verbatim>\<open>{k: v for k, v in data.items() if v is not None}\<close>.\<close>

definition remove_none :: "(string \<times> pyval) list \<Rightarrow> (string \<times> pyval) list" where
  "remove_none d = filter (\<lambda>kv. snd kv \<noteq> PNone) d"

text \<open>The \<^verbatim>\<open>json\<close> argument of \<^verbatim>\<open>requests.post\<close>.\<close>

definition chat_wire :: "LLMChatRequest \<Rightarrow> (string \<times> pyval) list" where
  "chat_wire req = remove_none (chat_data req)"

text \<open>Whether a key occurs in a value, at any depth.\<close>

fun has_key :: "string \<Rightarrow> pyval \<Rightarrow> bool" where
  "has_key k (PDict kvs) = (\<exists>kv \<in> set kvs. fst kv = k \<or> has_key k (snd kv))"
| "has_key k (PList vs) = (\<exists>v \<in> set vs. has_key k v)"
| "has_key k _ = False"

section \<open>Example values\<close>

definition example_sender :: ChatSender where
  "example_sender = \<lparr>chat_type = C2C, user_id = Some ''42'', group_id = None,
                      display_name = Some ''ann''\<rparr>"

definition example_image :: media where
  "example_image = \<lparr>kind = Image, url = Some ''https://example.com/i.png'', path = None,
                     data = None, format = None, resource_type = ''media''\<rparr>"

definition example_message :: IMMessage where
  "example_message = \<lparr>sender = example_sender,
      message_elements = [TextMessage ''a'', Media example_image, TextMessage ''b''],
      raw_message = None\<rparr>"

definition image_then_text :: IMMessage where
  "image_then_text = \<lparr>sender = example_sender,
      message_elements = [Media example_image, TextMessage ''b''], raw_message = None\<rparr>"

text \<open>A platform on which every photo upload fails and every other call succeeds.\<close>

definition photo_fails :: "bot_call list \<Rightarrow> bot_call \<Rightarrow> bool" where
  "photo_fails log c = (case c of SendPhoto _ _ \<Rightarrow> False | _ \<Rightarrow> True)"

text \<open>A platform that delivers two calls and then fails every call.\<close>

definition two_then_fail :: "bot_call list \<Rightarrow> bot_call \<Rightarrow> bool" where
  "two_then_fail log c = (length log < 2)"

definition group_recipient :: ChatSender where
  "group_recipient = \<lparr>chat_type = GROUP, user_id = Some ''42'', group_id = Some ''-100'',
                       display_name = None\<rparr>"

definition two_texts :: IMMessage where
  "two_texts = \<lparr>sender = example_sender,
      message_elements = [TextMessage ''a'', TextMessage ''b''], raw_message = None\<rparr>"

text \<open>An image whose bytes are empty, as they are after an empty file has been read.\<close>

definition empty_loaded :: media where
  "empty_loaded = \<lparr>kind = Image, url = None, path = Some ''/srv/empty.png'', data = Some [],
                    format = Some ''png'', resource_type = ''media''\<rparr>"

definition small_file :: world where
  "small_file = \<lparr>files = [''/srv/empty.png'' \<mapsto> [77, 97, 110]], remote = Map.empty,
                  magic_mime = (\<lambda>bs. ''application/octet-stream''),
                  reads = 0, fetches = 0, temps = 0\<rparr>"

text \<open>An environment with no file and no remote resource.\<close>

definition example_world :: world where
  "example_world = \<lparr>files = Map.empty, remote = Map.empty,
                     magic_mime = (\<lambda>bs. ''application/octet-stream''),
                     reads = 0, fetches = 0, temps = 0\<rparr>"

text \<open>The image built from the three bytes of \<^verbatim>\<open>Man\<close> and the format \<^verbatim>\<open>png\<close>.\<close>

definition bytes_image :: media where
  "bytes_image = \<lparr>kind = Image, url = None, path = None, data = Some [77, 97, 110],
                   format = Some ''png'', resource_type = ''media''\<rparr>"

section \<open>Runs of a media resource\<close>

text \<open>The class, the format and the resource type of an instance are unchanged.\<close>

definition kept :: "media \<Rightarrow> media \<Rightarrow> bool" where
  "kept m m1 = (format m1 = format m \<and> resource_type m1 = resource_type m \<and> kind m1 = kind m)"

text \<open>
  The source an instance would load its bytes from can be read and is not empty: the file
  when a path is held, the remote resource otherwise. An instance that holds bytes needs
  neither.
\<close>

definition readable :: "media \<Rightarrow> world \<Rightarrow> bool" where
  "readable m w =
     (if truthy (data m) then True
      else if truthy (path m) then truthy (files w (fmt_opt (path m)))
      else truthy (remote w (fmt_opt (url m))))"

text \<open>\<^verbatim>\<open>get_data\<close>, then \<^verbatim>\<open>get_path\<close>, then \<^verbatim>\<open>get_url\<close>, on one instance.\<close>

definition resolve_all ::
  "media \<Rightarrow> world \<Rightarrow> (error + bytes) \<times> (error + string) \<times> (error + string) \<times> media \<times> world" where
  "resolve_all m w =
     (case get_data m w of (r1, m1, w1) \<Rightarrow>
        (case get_path m1 w1 of (r2, m2, w2) \<Rightarrow>
           (case get_url m2 w2 of (r3, m3, w3) \<Rightarrow> (r1, r2, r3, m3, w3))))"

text \<open>The instance and the environment after the three calls.\<close>

definition after_resolve :: "media \<Rightarrow> world \<Rightarrow> media \<times> world" where
  "after_resolve m w = (case resolve_all m w of (r1, r2, r3, m3, w3) \<Rightarrow> (m3, w3))"

text \<open>The fetch/read call counter.\<close>

definition counted :: "world \<Rightarrow> nat" where
  "counted w = reads w + fetches w"

text \<open>An environment whose one remote resource has three bytes, and one where it is empty.\<close>

definition one_remote :: world where
  "one_remote = example_world\<lparr>remote := [''https://example.com/i.png'' \<mapsto> [77, 97, 110]]\<rparr>"

definition empty_remote :: world where
  "empty_remote = example_world\<lparr>remote := [''https://example.com/i.png'' \<mapsto> []]\<rparr>"

section \<open>Base64: decoding inverts encoding\<close>

lemma sextets_join:
  fixes n :: nat
  assumes "n < 16777216"
  shows "n div 262144 mod 64 * 262144 + n div 4096 mod 64 * 4096 + n div 64 mod 64 * 64 + n mod 64 = n"
proof -
  define q1 where "q1 = n div 64"
  define q2 where "q2 = q1 div 64"
  define q3 where "q3 = q2 div 64"
  have d2: "n div 4096 = q2"
    unfolding q2_def q1_def by (simp add: div_mult2_eq [symmetric])
  have d3: "n div 262144 = q3"
    unfolding q3_def q2_def q1_def by (simp add: div_mult2_eq [symmetric])
  have "q3 < 64"
    using assms unfolding d3 [symmetric] by (simp add: div_less_iff_less_mult)
  then have m3: "q3 mod 64 = q3" by simp
  have e1: "n = q1 * 64 + n mod 64" unfolding q1_def by simp
  have e2: "q1 = q2 * 64 + q1 mod 64" unfolding q2_def by simp
  have e3: "q2 = q3 * 64 + q2 mod 64" unfolding q3_def by simp
  have "q3 * 262144 + q2 mod 64 * 4096 + q1 mod 64 * 64 + n mod 64
        = ((q3 * 64 + q2 mod 64) * 64 + q1 mod 64) * 64 + n mod 64"
    by (simp add: algebra_simps)
  also have "\<dots> = n" using e1 e2 e3 by simp
  finally show ?thesis unfolding d2 d3 m3 q1_def [symmetric] .
qed

lemma b64_index_char: "b64_index (b64_char i) = Some (i mod 64)"
proof -
  have "\<forall>j \<in> set [0..<64]. b64_index (b64_char j) = Some j"
    by code_simp
  then have "b64_index (b64_char (i mod 64)) = Some (i mod 64)" by simp
  then show ?thesis by (simp add: b64_char_def)
qed

lemma b64_group_chars:
  assumes "n < 16777216"
  shows "b64_group (b64_char (n div 262144)) (b64_char (n div 4096)) (b64_char (n div 64)) (b64_char n) = Some n"
proof -
  have "b64_group (b64_char (n div 262144)) (b64_char (n div 4096)) (b64_char (n div 64)) (b64_char n)
        = Some (n div 262144 mod 64 * 262144 + n div 4096 mod 64 * 4096 + n div 64 mod 64 * 64 + n mod 64)"
    unfolding b64_group_def b64_index_char by simp
  then show ?thesis unfolding sextets_join [OF assms] .
qed

lemma unat_byte: "unat (a :: byte) < 256"
  using unsigned_less [of a] by simp

lemma byte_of_nat: "k mod 256 = unat (a :: byte) \<Longrightarrow> word_of_nat k = a"
  by (simp add: word_unat_eq_iff unat_of_nat)

lemma split_256:
  fixes q r :: nat
  assumes "r < 256"
  shows "(q * 256 + r) div 256 = q" and "(q * 256 + r) mod 256 = r"
  using assms by simp_all

lemma three_bytes:
  fixes a b c :: byte
  defines "n \<equiv> unat a * 65536 + unat b * 256 + unat c"
  shows "n < 16777216" and "word_of_nat (n div 65536) = a"
    and "word_of_nat (n div 256) = b" and "word_of_nat n = c"
proof -
  have ua: "unat a < 256" and ub: "unat b < 256" and uc: "unat c < 256"
    by (rule unat_byte)+
  show "n < 16777216" using ua ub uc unfolding n_def by linarith
  have n2: "n = (unat a * 256 + unat b) * 256 + unat c" unfolding n_def by simp
  have q: "n div 256 = unat a * 256 + unat b" and c: "n mod 256 = unat c"
    unfolding n2 using split_256 [OF uc] by blast+
  have "n div 65536 = n div 256 div 256" by (simp add: div_mult2_eq [symmetric])
  then have "n div 65536 = unat a" unfolding q using split_256 (1) [OF ub] by simp
  then have "(n div 65536) mod 256 = unat a" using ua by simp
  then show "word_of_nat (n div 65536) = a" by (rule byte_of_nat)
  have "(n div 256) mod 256 = unat b" unfolding q using split_256 (2) [OF ub] by blast
  then show "word_of_nat (n div 256) = b" by (rule byte_of_nat)
  show "word_of_nat n = c" using c by (rule byte_of_nat)
qed


lemma b64_char_not_pad: "b64_char i \<noteq> CHR ''=''"
proof -
  have "\<forall>j \<in> set [0..<64]. b64_char j \<noteq> CHR ''=''"
    by code_simp
  then have "b64_char (i mod 64) \<noteq> CHR ''=''" by simp
  then show ?thesis by (simp add: b64_char_def)
qed

lemma b64_char_zero: "k mod 64 = 0 \<Longrightarrow> b64_char k = CHR ''A''"
  by (simp add: b64_char_def b64_alphabet_def)

lemma b64encode_Nil_iff: "b64encode bs = [] \<longleftrightarrow> bs = []"
  by (cases bs rule: b64encode.cases) (simp_all add: Let_def)

lemma decode_group3:
  fixes a b c :: byte
  defines "n \<equiv> unat a * 65536 + unat b * 256 + unat c"
  shows "b64decode [b64_char (n div 262144), b64_char (n div 4096), b64_char (n div 64), b64_char n]
         = Some [a, b, c]"
  using three_bytes [of a b c] b64_group_chars [of n]
  by (simp add: n_def [symmetric] b64_char_not_pad)

lemma decode_group2:
  fixes a b :: byte
  defines "n \<equiv> unat a * 65536 + unat b * 256"
  shows "b64decode [b64_char (n div 262144), b64_char (n div 4096), b64_char (n div 64), CHR ''='']
         = Some [a, b]"
proof -
  have n0: "n = unat a * 65536 + unat b * 256 + unat (0 :: byte)" by (simp add: n_def)
  have "n = (unat a * 1024 + unat b * 4) * 64" by (simp add: n_def)
  then have "n mod 64 = 0" by simp
  then have A: "CHR ''A'' = b64_char n" by (simp add: b64_char_zero)
  show ?thesis
    using three_bytes [of a b 0] b64_group_chars [of n]
    unfolding n0 [symmetric]
    by (simp add: b64_char_not_pad A)
qed

lemma decode_group1:
  fixes a :: byte
  defines "n \<equiv> unat a * 65536"
  shows "b64decode [b64_char (n div 262144), b64_char (n div 4096), CHR ''='', CHR ''='']
         = Some [a]"
proof -
  have n0: "n = unat a * 65536 + unat (0 :: byte) * 256 + unat (0 :: byte)" by (simp add: n_def)
  have "n = (unat a * 1024) * 64" by (simp add: n_def)
  then have "n mod 64 = 0" by simp
  then have A: "CHR ''A'' = b64_char n" by (simp add: b64_char_zero)
  have "n div 64 = (unat a * 16) * 64" by (simp add: n_def)
  then have "(n div 64) mod 64 = 0" by simp
  then have B: "CHR ''A'' = b64_char (n div 64)" by (simp add: b64_char_zero)
  have "b64_group (b64_char (n div 262144)) (b64_char (n div 4096)) (CHR ''A'') (CHR ''A'') = Some n"
    using three_bytes (1) [of a 0 0] b64_group_chars [of n]
    unfolding n0 [symmetric] A [symmetric] B [symmetric] by simp
  then show ?thesis
    using three_bytes (2) [of a 0 0] unfolding n0 [symmetric] by simp
qed

lemma b64decode_b64encode: "b64decode (b64encode bs) = Some bs"
proof (induction bs rule: b64encode.induct)
  case (1 a b c rest)
  define n where "n = unat a * 65536 + unat b * 256 + unat c"
  show ?case
  proof (cases "rest = []")
    case True
    then show ?thesis using decode_group3 [of a b c] by (simp add: Let_def)
  next
    case False
    then obtain x xs where enc: "b64encode rest = x # xs"
      by (cases "b64encode rest") (simp_all add: b64encode_Nil_iff)
    have grp: "b64_group (b64_char (n div 262144)) (b64_char (n div 4096)) (b64_char (n div 64)) (b64_char n) = Some n"
      using three_bytes (1) [of a b c] b64_group_chars [of n] by (simp add: n_def)
    show ?thesis
      using "1.IH" three_bytes [of a b c] grp
      by (simp add: Let_def enc n_def [symmetric])
  qed
next
  case (2 a b)
  show ?case using decode_group2 [of a b] by (simp add: Let_def)
next
  case (3 a)
  show ?case using decode_group1 [of a] by (simp add: Let_def)
next
  case 4
  show ?case by simp
qed

section \<open>Construction\<close>

text \<open>
  C1, as stated, fails: a call that supplies both a URL and a path supplies two
  representations, and the constructor returns an instance (the URL wins).
\<close>

theorem init_two_sources_counterexample:
  "supplied (Some ''u'') (Some ''p'') None None = 2
   \<and> MediaMessage_init Image (Some ''u'') (Some ''p'') None None
       = Inr \<lparr>kind = Image, url = Some ''u'', path = None, data = None, format = None,
              resource_type = ''media''\<rparr>"
  by (simp add: supplied_def MediaMessage_init_def truthy_def from_url_def)

text \<open>
  C1, amended: construction raises exactly when none of the three representations is
  supplied. With one or more it returns an instance that holds exactly one of them, chosen
  in the order URL, path, bytes; the others are discarded. The result is a function of the
  arguments.
\<close>

theorem init_fails_iff_none_supplied:
  "(\<exists>e. MediaMessage_init k u p d f = Inl e) = (supplied u p d f = 0)
   \<and> (\<exists>m. MediaMessage_init k u p d f = Inr m) = (1 \<le> supplied u p d f)
   \<and> (\<forall>m. MediaMessage_init k u p d f = Inr m \<longrightarrow>
         held m = 1 \<and> kind m = k \<and> resource_type m = ''media'' \<and> format m = f
         \<and> url m = (if truthy u then u else None)
         \<and> path m = (if \<not> truthy u \<and> truthy p then p else None)
         \<and> data m = (if \<not> truthy u \<and> \<not> truthy p then d else None))"
  by (auto simp: MediaMessage_init_def supplied_def held_def from_url_def from_path_def
      from_data_def Let_def truthy_def split: option.splits)

theorem init_fails_iff_none_supplied_witness:
  "MediaMessage_init Voice None (Some ''/tmp/a.ogg'') None None
     = Inr \<lparr>kind = Voice, url = None, path = Some ''/tmp/a.ogg'', data = None, format = None,
            resource_type = ''media''\<rparr>
   \<and> held \<lparr>kind = Voice, url = None, path = Some ''/tmp/a.ogg'', data = None, format = None,
            resource_type = ''media''\<rparr> = 1"
  using init_fails_iff_none_supplied [of Voice None "Some ''/tmp/a.ogg''" None None]
  by (simp add: MediaMessage_init_def truthy_def from_path_def)

section \<open>IMMessage.content\<close>

lemma content_loop_joined: "content_loop acc es = acc @ joined_plain es"
  by (induction es arbitrary: acc) (simp_all add: Let_def joined_plain_def)

lemma strip_trims:
  "\<exists>pre post. s = pre @ strip s @ post \<and> list_all is_space pre \<and> list_all is_space post
     \<and> (strip s = [] \<or> \<not> is_space (hd (strip s)) \<and> \<not> is_space (last (strip s)))"
proof -
  define d where "d = dropWhile is_space s"
  define r where "r = rev d"
  define pre where "pre = takeWhile is_space s"
  define post where "post = rev (takeWhile is_space r)"
  have t: "strip s = rev (dropWhile is_space r)" by (simp add: strip_def d_def r_def)
  have s: "s = pre @ d" by (simp add: pre_def d_def)
  have "r = takeWhile is_space r @ dropWhile is_space r" by simp
  then have "rev r = rev (dropWhile is_space r) @ rev (takeWhile is_space r)"
    by (metis rev_append)
  then have d: "d = strip s @ post" by (simp add: t post_def r_def)
  have a: "list_all is_space pre" and b: "list_all is_space post"
    by (auto simp: pre_def post_def list_all_iff dest: set_takeWhileD)
  have c: "\<not> is_space (hd (strip s)) \<and> \<not> is_space (last (strip s))" if n: "strip s \<noteq> []"
  proof -
    have "dropWhile is_space r \<noteq> []" using n t by simp
    then have l: "\<not> is_space (hd (dropWhile is_space r))" by (rule hd_dropWhile)
    have "last (strip s) = hd (dropWhile is_space r)"
      using n t by (simp add: last_rev)
    then have 1: "\<not> is_space (last (strip s))" using l by simp
    have "d \<noteq> []" using d n by simp
    then have "\<not> is_space (hd d)" unfolding d_def by (rule hd_dropWhile)
    moreover have "hd d = hd (strip s)" using d n by (metis hd_append2)
    ultimately show ?thesis using 1 by simp
  qed
  have "s = pre @ strip s @ post" using s d by simp
  then show ?thesis using a b c by blast
qed

lemma strip_unique:
  assumes "s = pre @ t @ post" and "list_all is_space pre" and "list_all is_space post"
    and "t = [] \<or> \<not> is_space (hd t) \<and> \<not> is_space (last t)"
  shows "strip s = t"
proof (cases "t = []")
  case True
  then have "list_all is_space s" using assms(1-3) by simp
  then have "\<forall>x \<in> set s. is_space x" by (simp add: list_all_iff)
  then have e: "dropWhile is_space s = []" by (rule dropWhile_eq_Nil_conv [THEN iffD2])
  show ?thesis unfolding strip_def e using True by simp
next
  case False
  then have h: "\<not> is_space (hd t)" and l: "\<not> is_space (last t)" using assms(4) by auto
  have p: "\<forall>c \<in> set pre. is_space c" and q: "\<forall>c \<in> set (rev post). is_space c"
    using assms(2,3) by (simp_all add: list_all_iff)
  have "dropWhile is_space s = dropWhile is_space (t @ post)"
    using p unfolding assms(1) by (simp add: dropWhile_append)
  also have "\<dots> = t @ post" using False h by (cases t) simp_all
  finally have 1: "dropWhile is_space s = t @ post" .
  have "dropWhile is_space (rev post @ rev t) = dropWhile is_space (rev t)"
    using q by (simp add: dropWhile_append)
  also have "\<dots> = rev t" using False l by (cases "rev t") (simp_all add: hd_rev)
  finally show ?thesis by (simp add: strip_def 1)
qed

lemma strip_iff:
  "(\<exists>pre post. s = pre @ t @ post \<and> list_all is_space pre \<and> list_all is_space post
      \<and> (t = [] \<or> \<not> is_space (hd t) \<and> \<not> is_space (last t))) = (t = strip s)"
proof
  assume "\<exists>pre post. s = pre @ t @ post \<and> list_all is_space pre \<and> list_all is_space post
      \<and> (t = [] \<or> \<not> is_space (hd t) \<and> \<not> is_space (last t))"
  then obtain pre post where "s = pre @ t @ post" "list_all is_space pre" "list_all is_space post"
      "t = [] \<or> \<not> is_space (hd t) \<and> \<not> is_space (last t)"
    by blast
  then show "t = strip s" by (rule strip_unique [symmetric])
next
  assume "t = strip s"
  then show "\<exists>pre post. s = pre @ t @ post \<and> list_all is_space pre \<and> list_all is_space post
      \<and> (t = [] \<or> \<not> is_space (hd t) \<and> \<not> is_space (last t))"
    using strip_trims [of s] by simp
qed

text \<open>
  C4, as stated, fails: the plain text of an image element is \<^verbatim>\<open>[ImageMessage]\<close>, so
  the content of a text \<^verbatim>\<open>a\<close>, an image and a text \<^verbatim>\<open>b\<close> is not \<^verbatim>\<open>a\n[Image]b\<close>.
\<close>

theorem content_example_counterexample:
  "content example_message \<noteq> CHR ''a'' # CHR 0x0A # ''[Image]b''"
  by (simp add: content_def example_message_def example_image_def strip_def is_space_def Let_def)

text \<open>
  C4, amended: the content of a message is the one text \<open>t\<close> obtained from the
  concatenation, in sequence order, of each element's plain text (followed by a line break
  when the element is a text) by removing whitespace at both ends: the concatenation is
  whitespace, then \<open>t\<close>, then whitespace, and \<open>t\<close> neither begins nor ends with
  whitespace. For a text \<^verbatim>\<open>a\<close>, any image and a text \<^verbatim>\<open>b\<close> it is
  \<^verbatim>\<open>a\n[ImageMessage]b\<close>. Whitespace is the code points 9 to 13, 28 to 32, U+0085 and
  U+00A0.
\<close>

theorem content_text_image_text:
  "(\<exists>pre post. joined_plain (message_elements msg) = pre @ t @ post
       \<and> list_all is_space pre \<and> list_all is_space post
       \<and> (t = [] \<or> \<not> is_space (hd t) \<and> \<not> is_space (last t))) = (t = content msg)
   \<and> (kind m = Image \<longrightarrow>
        content \<lparr>sender = s, message_elements = [TextMessage ''a'', Media m, TextMessage ''b''],
                 raw_message = r\<rparr> = CHR ''a'' # CHR 0x0A # ''[ImageMessage]b'')
   \<and> content \<lparr>sender = s, message_elements = [TextMessage [CHR 0x85, CHR ''a'', CHR 0xA0]],
               raw_message = r\<rparr> = ''a''
   \<and> is_space c
       = (of_char c \<in> {9, 10, 11, 12, 13, 28, 29, 30, 31, 32, 133, 160 :: nat})"
proof -
  have c: "content msg = strip (joined_plain (message_elements msg))" for msg
    by (simp add: content_def content_loop_joined)
  have 1: "(\<exists>pre post. joined_plain (message_elements msg) = pre @ t @ post
       \<and> list_all is_space pre \<and> list_all is_space post
       \<and> (t = [] \<or> \<not> is_space (hd t) \<and> \<not> is_space (last t))) = (t = content msg)"
    unfolding c by (rule strip_iff)
  have 2: "kind m = Image \<longrightarrow>
        content \<lparr>sender = s, message_elements = [TextMessage ''a'', Media m, TextMessage ''b''],
                 raw_message = r\<rparr> = CHR ''a'' # CHR 0x0A # ''[ImageMessage]b''"
    by (simp add: c joined_plain_def strip_def is_space_def)
  have 3: "content \<lparr>sender = s, message_elements = [TextMessage [CHR 0x85, CHR ''a'', CHR 0xA0]],
               raw_message = r\<rparr> = ''a''"
    by (simp add: c joined_plain_def strip_def is_space_def)
  have 4: "is_space c
       = (of_char c \<in> {9, 10, 11, 12, 13, 28, 29, 30, 31, 32, 133, 160 :: nat})"
    unfolding is_space_def Let_def by (simp only: insert_iff empty_iff) arith
  show ?thesis using 1 2 3 4 by blast
qed

theorem content_text_image_text_witness:
  "kind example_image = Image
   \<and> content example_message = CHR ''a'' # CHR 0x0A # ''[ImageMessage]b''"
  using content_text_image_text [where m = example_image and s = example_sender and r = None,
      THEN conjunct2, THEN conjunct1]
  by (simp add: example_message_def example_image_def)

section \<open>The wire request of the Gemini adapter\<close>

text \<open>
  C6 at a request with \<^verbatim>\<open>stop=None\<close>: the filter that removes \<^verbatim>\<open>None\<close> fields looks
  at the three top-level entries only, so \<^verbatim>\<open>generationConfig\<close> still carries the key
  \<^verbatim>\<open>stopSequences\<close>, with the value \<^verbatim>\<open>None\<close>.
\<close>

theorem chat_wire_keeps_none_stop:
  "map_of (chat_wire (req\<lparr>stop := None\<rparr>)) ''generationConfig''
     = Some (PDict [(''temperature'', temperature req), (''topP'', top_p req), (''topK'', PInt 40),
                    (''maxOutputTokens'', max_tokens req), (''stopSequences'', PNone)])
   \<and> has_key ''stopSequences'' (PDict (chat_wire (req\<lparr>stop := None\<rparr>)))"
  by (simp add: chat_wire_def chat_data_def remove_none_def opt_list_def)

section \<open>Sending a message through the Telegram adapter\<close>

lemma await_all_append:
  "await_all ok (xs @ ys) log
     = (case await_all ok xs log of
          (Some e, log1) \<Rightarrow> (Some e, log1)
        | (None, log1) \<Rightarrow> await_all ok ys log1)"
  by (induction xs arbitrary: log) (auto simp: bot_await_def split: prod.splits option.splits)

lemma send_elements_await_all:
  "send_elements ok md cid es log = await_all ok (concat (map (element_calls md cid) es)) log"
  by (induction es arbitrary: log)
    (auto simp: await_all_append split: prod.splits option.splits)

lemma await_all_delivers:
  "(\<forall>i < length cs. ok (log @ take i cs) (cs ! i)) \<Longrightarrow> await_all ok cs log = (None, log @ cs)"
proof (induction cs arbitrary: log)
  case Nil
  then show ?case by simp
next
  case (Cons c cs)
  have 0: "ok log c" using Cons.prems by fastforce
  have "\<forall>i < length cs. ok ((log @ [c]) @ take i cs) (cs ! i)"
  proof (intro allI impI)
    fix i assume "i < length cs"
    then have "ok (log @ take (Suc i) (c # cs)) ((c # cs) ! Suc i)"
      using Cons.prems by (metis Suc_less_eq length_Cons)
    then show "ok ((log @ [c]) @ take i cs) (cs ! i)" by simp
  qed
  then have "await_all ok cs (log @ [c]) = (None, (log @ [c]) @ cs)" by (rule Cons.IH)
  then show ?case using 0 by (simp add: bot_await_def)
qed

lemma await_all_stops:
  "j < length cs \<Longrightarrow> (\<forall>i < j. ok (log @ take i cs) (cs ! i)) \<Longrightarrow> \<not> ok (log @ take j cs) (cs ! j)
     \<Longrightarrow> await_all ok cs log = (Some SendError, log @ take j cs)"
proof (induction cs arbitrary: log j)
  case Nil
  then show ?case by simp
next
  case (Cons c cs)
  show ?case
  proof (cases j)
    case 0
    then show ?thesis using Cons.prems by (simp add: bot_await_def)
  next
    case (Suc k)
    have 0: "ok log c" using Cons.prems(2) Suc by fastforce
    have k: "k < length cs" using Cons.prems(1) Suc by simp
    have a: "\<forall>i < k. ok ((log @ [c]) @ take i cs) (cs ! i)"
    proof (intro allI impI)
      fix i assume "i < k"
      then have "ok (log @ take (Suc i) (c # cs)) ((c # cs) ! Suc i)"
        using Cons.prems(2) Suc by (metis Suc_less_eq)
      then show "ok ((log @ [c]) @ take i cs) (cs ! i)" by simp
    qed
    have f: "\<not> ok ((log @ [c]) @ take k cs) (cs ! k)"
      using Cons.prems(3) Suc by simp
    have "await_all ok cs (log @ [c]) = (Some SendError, (log @ [c]) @ take k cs)"
      using k a f by (rule Cons.IH)
    then show ?thesis using 0 Suc by (simp add: bot_await_def)
  qed
qed

lemma send_elements_abort:
  "fst (send_elements ok md cid es log) = Some err
   \<Longrightarrow> send_elements ok md cid (es @ rest) log = send_elements ok md cid es log"
  by (induction es arbitrary: log) (auto split: prod.splits option.splits)

text \<open>
  C7, as stated, fails: when the photo upload of the first element raises, the text after
  it is not sent, although the platform would have accepted it.
\<close>

theorem send_failure_aborts_counterexample:
  "send_message photo_fails (\<lambda>t. t) image_then_text example_sender
     = (Some SendError, [SendChatAction (Some ''42'') ''upload_photo''])
   \<and> photo_fails [SendChatAction (Some ''42'') ''upload_photo'']
        (SendChatAction (Some ''42'') ''typing'')
   \<and> photo_fails [SendChatAction (Some ''42'') ''upload_photo'',
                   SendChatAction (Some ''42'') ''typing'']
        (SendMessage (Some ''42'') ''b'')"
  by (simp add: send_message_def image_then_text_def example_sender_def example_image_def
      photo_fails_def bot_await_def)

text \<open>
  C7, amended: \<^verbatim>\<open>send_message\<close> makes the platform calls of the elements one after the
  other, in sequence order, to the user id of a C2C recipient or the group id of a GROUP
  recipient. When every call succeeds, all of them are delivered. Otherwise the first call
  that fails ends the send: the calls before it are delivered, its error is raised to the
  caller, and no later call is made, whatever elements follow. For any other chat type
  \<^verbatim>\<open>send_message\<close> raises \<^verbatim>\<open>ValueError\<close> and makes no call.
\<close>

theorem send_message_stops_at_first_failure:
  "(fst (send_message ok md (msg\<lparr>message_elements := es\<rparr>) rcpt) = Some err \<longrightarrow>
      send_message ok md (msg\<lparr>message_elements := es @ rest\<rparr>) rcpt
        = send_message ok md (msg\<lparr>message_elements := es\<rparr>) rcpt)
   \<and> (chat_type rcpt = C2C \<and> cid = user_id rcpt \<or> chat_type rcpt = GROUP \<and> cid = group_id rcpt \<longrightarrow>
        ((\<forall>i < length (concat (map (element_calls md cid) es)).
             ok (take i (concat (map (element_calls md cid) es)))
                (concat (map (element_calls md cid) es) ! i)) \<longrightarrow>
          send_message ok md (msg\<lparr>message_elements := es\<rparr>) rcpt
            = (None, concat (map (element_calls md cid) es)))
        \<and> (\<forall>j. j < length (concat (map (element_calls md cid) es))
               \<and> (\<forall>i < j. ok (take i (concat (map (element_calls md cid) es)))
                              (concat (map (element_calls md cid) es) ! i))
               \<and> \<not> ok (take j (concat (map (element_calls md cid) es)))
                       (concat (map (element_calls md cid) es) ! j) \<longrightarrow>
              send_message ok md (msg\<lparr>message_elements := es\<rparr>) rcpt
                = (Some SendError, take j (concat (map (element_calls md cid) es)))))
   \<and> (chat_type rcpt = OtherChat s \<longrightarrow>
        send_message ok md (msg\<lparr>message_elements := es\<rparr>) rcpt
          = (Some (ValueError (''Unsupported chat type: '' @ s)), []))"
proof -
  define cs where "cs = concat (map (element_calls md cid) es)"
  have 1: "fst (send_message ok md (msg\<lparr>message_elements := es\<rparr>) rcpt) = Some err \<longrightarrow>
      send_message ok md (msg\<lparr>message_elements := es @ rest\<rparr>) rcpt
        = send_message ok md (msg\<lparr>message_elements := es\<rparr>) rcpt"
    using send_elements_abort [of ok md _ es "[]" err rest]
    by (cases "chat_type rcpt") (simp_all add: send_message_def)
  have s: "send_message ok md (msg\<lparr>message_elements := es\<rparr>) rcpt = await_all ok cs []"
    if "chat_type rcpt = C2C \<and> cid = user_id rcpt \<or> chat_type rcpt = GROUP \<and> cid = group_id rcpt"
    using that by (auto simp: send_message_def send_elements_await_all cs_def)
  have d: "(\<forall>i < length cs. ok (take i cs) (cs ! i)) \<longrightarrow> await_all ok cs [] = (None, cs)"
    using await_all_delivers [of cs ok "[]"] by simp
  have f: "\<forall>j. j < length cs \<and> (\<forall>i < j. ok (take i cs) (cs ! i)) \<and> \<not> ok (take j cs) (cs ! j)
             \<longrightarrow> await_all ok cs [] = (Some SendError, take j cs)"
    using await_all_stops [of _ cs ok "[]"] by simp
  have 3: "chat_type rcpt = OtherChat s \<longrightarrow>
        send_message ok md (msg\<lparr>message_elements := es\<rparr>) rcpt
          = (Some (ValueError (''Unsupported chat type: '' @ s)), [])"
    by (simp add: send_message_def)
  show ?thesis
    unfolding cs_def [symmetric] using 1 s d f 3 by presburger
qed

theorem send_message_stops_at_first_failure_witness:
  "chat_type group_recipient = GROUP
   \<and> send_message two_then_fail (\<lambda>t. t) two_texts group_recipient
       = (Some SendError,
          [SendChatAction (Some ''-100'') ''typing'', SendMessage (Some ''-100'') ''a''])
   \<and> send_message photo_fails (\<lambda>t. t) two_texts group_recipient
       = (None,
          [SendChatAction (Some ''-100'') ''typing'', SendMessage (Some ''-100'') ''a'',
           SendChatAction (Some ''-100'') ''typing'', SendMessage (Some ''-100'') ''b''])"
proof -
  define es where "es = [TextMessage ''a'', TextMessage ''b'']"
  define cs where "cs = concat (map (element_calls (\<lambda>t. t) (Some ''-100'')) es)"
  have cs: "cs = [SendChatAction (Some ''-100'') ''typing'', SendMessage (Some ''-100'') ''a'',
                  SendChatAction (Some ''-100'') ''typing'', SendMessage (Some ''-100'') ''b'']"
    by (simp add: cs_def es_def)
  have m: "two_texts\<lparr>message_elements := es\<rparr> = two_texts"
    by (simp add: two_texts_def es_def)
  have g: "chat_type group_recipient = GROUP \<and> Some ''-100'' = group_id group_recipient"
    by (simp add: group_recipient_def)
  have stop: "2 < length cs \<and> (\<forall>i < 2. two_then_fail (take i cs) (cs ! i))
               \<and> \<not> two_then_fail (take 2 cs) (cs ! 2)"
    by (auto simp: cs two_then_fail_def)
  have all: "\<forall>i < length cs. photo_fails (take i cs) (cs ! i)"
    by (auto simp: cs photo_fails_def less_Suc_eq numeral_eq_Suc)
  have t2: "take 2 cs = [SendChatAction (Some ''-100'') ''typing'', SendMessage (Some ''-100'') ''a'']"
    by (simp add: cs)
  note stops = send_message_stops_at_first_failure [where ok = two_then_fail and md = "\<lambda>t. t"
      and msg = two_texts and es = es and rcpt = group_recipient and cid = "Some ''-100''"
      and err = SendError and rest = "[]" and s = "[]", THEN conjunct2, THEN conjunct1,
      folded cs_def]
  note delivers = send_message_stops_at_first_failure [where ok = photo_fails
      and md = "\<lambda>t. t" and msg = two_texts and es = es and rcpt = group_recipient
      and cid = "Some ''-100''" and err = SendError and rest = "[]" and s = "[]",
      THEN conjunct2, THEN conjunct1, folded cs_def]
  have a: "send_message two_then_fail (\<lambda>t. t) two_texts group_recipient
             = (Some SendError, take 2 cs)"
    using stops g stop unfolding m by blast
  have b: "send_message photo_fails (\<lambda>t. t) two_texts group_recipient = (None, cs)"
    using delivers g all unfolding m by blast
  show ?thesis using a b g unfolding t2 cs by simp
qed

section \<open>VideoElement.to_dict\<close>

text \<open>
  C8 at any video element: \<^verbatim>\<open>to_dict\<close> raises \<^verbatim>\<open>AttributeError\<close>, because it reads
  \<^verbatim>\<open>self.file\<close>, which is never assigned.
\<close>

theorem video_to_dict_raises:
  "media_to_dict (m\<lparr>kind := Video\<rparr>) w = (Inl (AttributeError ''file''), m\<lparr>kind := Video\<rparr>, w)
   \<and> call_method ToDict (m\<lparr>kind := Video\<rparr>) w
       = (Inl (AttributeError ''file''), m\<lparr>kind := Video\<rparr>, w)"
  by (simp add: media_to_dict_def answered_def)

section \<open>get_url without a URL\<close>

lemma init_bytes_image:
  "MediaMessage_init Image None None (Some [77, 97, 110]) (Some ''png'') = Inr bytes_image"
  by (simp add: MediaMessage_init_def truthy_def from_data_def bytes_image_def)

lemma b64_Man: "b64encode [77, 97, 110] = ''TWFu''"
  by (simp add: Let_def b64_char_def b64_alphabet_def)

lemma detect_format_Some:
  "data self = Some bs \<Longrightarrow> \<exists>self2. detect_format self w = Inr self2 \<and> data self2 = Some bs
      \<and> url self2 = url self \<and> path self2 = path self \<and> kind self2 = kind self"
  by (simp add: detect_format_def Let_def)

lemma init_held:
  "MediaMessage_init k u p d f = Inr m \<Longrightarrow> held m = 1"
  by (auto simp: MediaMessage_init_def held_def from_url_def from_path_def
      from_data_def Let_def truthy_def split: option.splits if_splits)

text \<open>
  C3, as stated, fails: an image built from bytes and a format holds no URL, and
  \<^verbatim>\<open>get_url\<close> returns a \<^verbatim>\<open>data:\<close> URL made from the bytes instead of raising.
\<close>

theorem get_url_from_bytes_counterexample:
  "MediaMessage_init Image None None (Some [77, 97, 110]) (Some ''png'') = Inr bytes_image
   \<and> url bytes_image = None
   \<and> get_url bytes_image example_world
       = (Inr ''data:media/png;base64,TWFu'', bytes_image, example_world)"
  using init_bytes_image b64_Man
  by (simp add: get_url_def data_url_def truthy_def bytes_image_def fmt_opt_def)

text \<open>
  C3, amended: on an instance that holds no URL, \<^verbatim>\<open>get_url\<close> never raises
  \<^verbatim>\<open>ValueError("No available media source")\<close> after a successful construction. When bytes
  are held it returns the \<^verbatim>\<open>data:\<close> URL of the resource type, the format and the base64
  text of the bytes, and changes nothing. Otherwise a path is held: the file is read once,
  and the \<^verbatim>\<open>data:\<close> URL of its content is returned, or the read error is raised.
\<close>

theorem get_url_without_url:
  assumes "MediaMessage_init k u p d f = Inr m" and "\<not> truthy (url m)"
  shows "fst (get_url m w) \<noteq> Inl (ValueError ''No available media source'')
    \<and> (truthy (data m) \<longrightarrow>
         get_url m w = (data_url m, m, w)
         \<and> (\<exists>bs. data m = Some bs \<and> data_url m
               = Inr (''data:'' @ resource_type m @ ''/'' @ fmt_opt (format m) @ '';base64,''
                      @ b64encode bs)))
    \<and> (\<not> truthy (data m) \<longrightarrow>
         (\<exists>q. path m = Some q \<and> q \<noteq> []
            \<and> (files w q = None \<longrightarrow> fst (get_url m w) = Inl (IOError q))
            \<and> (\<forall>bs. files w q = Some bs \<longrightarrow>
                  (\<exists>m1. get_url m w = (data_url m1, m1, w\<lparr>reads := Suc (reads w)\<rparr>)
                     \<and> data m1 = Some bs
                     \<and> data_url m1
                         = Inr (''data:'' @ resource_type m1 @ ''/'' @ fmt_opt (format m1)
                                @ '';base64,'' @ b64encode bs)))))"
proof -
  have h: "held m = 1" using assms(1) by (rule init_held)
  show ?thesis
  proof (cases "truthy (data m)")
    case True
    then show ?thesis using assms(2)
      by (auto simp: get_url_def data_url_def truthy_def split: option.splits)
  next
    case False
    with h assms(2) obtain q where q: "path m = Some q" "q \<noteq> []"
      by (auto simp: held_def truthy_def split: option.splits if_splits)
    have tp: "truthy (path m)" using q by (simp add: truthy_def)
    show ?thesis
    proof (cases "files w q")
      case None
      then show ?thesis using False assms(2) q tp
        by (simp add: get_url_def load_data_from_path_def Let_def)
    next
      case (Some bs)
      obtain m2 where m2: "detect_format (m\<lparr>data := Some bs\<rparr>) (w\<lparr>reads := Suc (reads w)\<rparr>) = Inr m2"
        "data m2 = Some bs"
        using detect_format_Some [of "m\<lparr>data := Some bs\<rparr>" bs "w\<lparr>reads := Suc (reads w)\<rparr>"] by auto
      have "get_url m w = (data_url m2, m2, w\<lparr>reads := Suc (reads w)\<rparr>)"
        using False assms(2) q tp Some m2
        by (simp add: get_url_def load_data_from_path_def Let_def)
      then show ?thesis using False q Some m2
        by (auto simp: data_url_def)
    qed
  qed
qed

theorem get_url_without_url_witness:
  "MediaMessage_init Image None None (Some [77, 97, 110]) (Some ''png'') = Inr bytes_image
   \<and> \<not> truthy (url bytes_image) \<and> truthy (data bytes_image)
   \<and> get_url bytes_image example_world = (data_url bytes_image, bytes_image, example_world)"
proof -
  have u: "\<not> truthy (url bytes_image)" and d: "truthy (data bytes_image)"
    by (simp_all add: bytes_image_def truthy_def)
  show ?thesis
    using init_bytes_image u d get_url_without_url [OF init_bytes_image u, of example_world]
    by simp
qed

section \<open>to_dict of a media element\<close>

lemma data_field_unresolved: "\<not> truthy (data m) \<Longrightarrow> data_field m = PNone"
  by (simp add: data_field_def)

lemma data_field_held: "data m = Some bs \<Longrightarrow> bs \<noteq> [] \<Longrightarrow> data_field m = PStr (b64encode bs)"
  by (simp add: data_field_def truthy_def)

lemma media_to_dict_fields:
  "kind m \<noteq> Video \<Longrightarrow>
     media_to_dict m w
       = (Inr [(''type'', PStr (type_tag (kind m))), (''url'', opt_str (url m)),
               (''path'', opt_str (path m)), (''data'', data_field m),
               (''format'', opt_str (format m))], m, w)"
  by (cases "kind m") (simp_all add: media_to_dict_def type_tag_def)

text \<open>
  C5: \<^verbatim>\<open>to_dict\<close> of a media element leaves the instance and the environment as they
  are (no read, no fetch, no temporary file). A voice, image or file element returns the
  dictionary of its five entries, in which \<^verbatim>\<open>data\<close> is \<^verbatim>\<open>None\<close> while no bytes are
  held and the base64 text of the bytes otherwise; for an image built from bytes and a
  format that text decodes to the bytes given. A video element returns no dictionary:
  \<^verbatim>\<open>to_dict\<close> raises \<^verbatim>\<open>AttributeError\<close>, so for it the claim fails.
\<close>

theorem to_dict_data_field:
  "snd (media_to_dict m w) = (m, w)
   \<and> (kind m = Video \<longrightarrow> fst (media_to_dict m w) = Inl (AttributeError ''file''))
   \<and> (kind m \<noteq> Video \<longrightarrow>
        fst (media_to_dict m w)
          = Inr [(''type'', PStr (type_tag (kind m))), (''url'', opt_str (url m)),
                 (''path'', opt_str (path m)),
                 (''data'', (case data m of None \<Rightarrow> PNone
                             | Some bs \<Rightarrow> if bs = [] then PNone else PStr (b64encode bs))),
                 (''format'', opt_str (format m))])
   \<and> (\<not> truthy (data m) \<longrightarrow> map_of (MediaMessage_to_dict m) ''data'' = Some PNone)
   \<and> (MediaMessage_init Image u p (Some bs) f = Inr m \<and> data m = Some bs \<longrightarrow>
        (\<exists>fields payload. media_to_dict m w = (Inr fields, m, w)
           \<and> map_of fields ''data'' = Some (PStr payload) \<and> b64decode payload = Some bs))"
proof -
  have a: "snd (media_to_dict m w) = (m, w)"
    by (cases "kind m") (simp_all add: media_to_dict_def)
  have b: "kind m = Video \<longrightarrow> fst (media_to_dict m w) = Inl (AttributeError ''file'')"
    by (simp add: media_to_dict_def)
  have c: "kind m \<noteq> Video \<longrightarrow>
        fst (media_to_dict m w)
          = Inr [(''type'', PStr (type_tag (kind m))), (''url'', opt_str (url m)),
                 (''path'', opt_str (path m)),
                 (''data'', (case data m of None \<Rightarrow> PNone
                             | Some bs \<Rightarrow> if bs = [] then PNone else PStr (b64encode bs))),
                 (''format'', opt_str (format m))]"
    by (auto simp: media_to_dict_fields data_field_def truthy_def split: option.splits)
  have d: "\<not> truthy (data m) \<longrightarrow> map_of (MediaMessage_to_dict m) ''data'' = Some PNone"
    by (simp add: MediaMessage_to_dict_def data_field_unresolved)
  have e: "MediaMessage_init Image u p (Some bs) f = Inr m \<and> data m = Some bs \<longrightarrow>
        (\<exists>fields payload. media_to_dict m w = (Inr fields, m, w)
           \<and> map_of fields ''data'' = Some (PStr payload) \<and> b64decode payload = Some bs)"
  proof
    assume h: "MediaMessage_init Image u p (Some bs) f = Inr m \<and> data m = Some bs"
    then have k: "kind m = Image" and t: "bs \<noteq> []"
      by (auto simp: MediaMessage_init_def from_url_def from_path_def from_data_def Let_def
          truthy_def split: if_splits)
    show "\<exists>fields payload. media_to_dict m w = (Inr fields, m, w)
           \<and> map_of fields ''data'' = Some (PStr payload) \<and> b64decode payload = Some bs"
      using h k t by (simp add: media_to_dict_def data_field_held b64decode_b64encode)
  qed
  show ?thesis using a b c d e by blast
qed

theorem to_dict_data_field_witness:
  "kind example_image \<noteq> Video
   \<and> media_to_dict example_image example_world
       = (Inr [(''type'', PStr ''image''), (''url'', PStr ''https://example.com/i.png''),
               (''path'', PNone), (''data'', PNone), (''format'', PNone)],
          example_image, example_world)
   \<and> kind (example_image\<lparr>kind := Video\<rparr>) = Video
   \<and> fst (media_to_dict (example_image\<lparr>kind := Video\<rparr>) example_world)
       = Inl (AttributeError ''file'')
   \<and> MediaMessage_init Image None None (Some [77, 97, 110]) (Some ''png'') = Inr bytes_image
   \<and> data bytes_image = Some [77, 97, 110]
   \<and> (\<exists>fields payload. media_to_dict bytes_image example_world
                           = (Inr fields, bytes_image, example_world)
         \<and> map_of fields ''data'' = Some (PStr payload) \<and> b64decode payload = Some [77, 97, 110])"
proof -
  have d: "data bytes_image = Some [77, 97, 110]" by (simp add: bytes_image_def)
  have k: "kind example_image \<noteq> Video" "kind (example_image\<lparr>kind := Video\<rparr>) = Video"
    by (simp_all add: example_image_def)
  have f: "url example_image = Some ''https://example.com/i.png''" "path example_image = None"
    "data example_image = None" "format example_image = None" "kind example_image = Image"
    by (simp_all add: example_image_def)
  note t1 = to_dict_data_field [where m = example_image and w = example_world]
  note t2 = to_dict_data_field [where m = "example_image\<lparr>kind := Video\<rparr>"
      and w = example_world]
  note t3 = to_dict_data_field [where m = bytes_image and w = example_world and u = None
      and p = None and bs = "[77, 97, 110]" and f = "Some ''png''"]
  have 1: "media_to_dict example_image example_world
       = (Inr [(''type'', PStr ''image''), (''url'', PStr ''https://example.com/i.png''),
               (''path'', PNone), (''data'', PNone), (''format'', PNone)],
          example_image, example_world)"
    using t1 k(1) f by (auto simp: prod_eq_iff opt_str_def type_tag_def)
  have 2: "fst (media_to_dict (example_image\<lparr>kind := Video\<rparr>) example_world)
       = Inl (AttributeError ''file'')"
    using t2 k(2) by blast
  have 3: "\<exists>fields payload. media_to_dict bytes_image example_world
                           = (Inr fields, bytes_image, example_world)
         \<and> map_of fields ''data'' = Some (PStr payload) \<and> b64decode payload = Some [77, 97, 110]"
    using t3 init_bytes_image d by blast
  show ?thesis using k 1 2 3 init_bytes_image d by blast
qed

section \<open>The resource type of an instance built with a format\<close>

lemma load_path_kept:
  "truthy (format m) \<Longrightarrow> load_data_from_path m w = (r, m1, w1) \<Longrightarrow> kept m m1"
  by (auto simp: load_data_from_path_def detect_format_def kept_def Let_def
      split: option.splits sum.splits if_splits)

lemma load_url_kept:
  "truthy (format m) \<Longrightarrow> load_data_from_url m w = (r, m1, w1) \<Longrightarrow> kept m m1"
  by (auto simp: load_data_from_url_def detect_format_def kept_def Let_def
      split: option.splits sum.splits if_splits)

lemma get_url_kept:
  assumes "truthy (format m)" and "get_url m w = (r, m1, w1)"
  shows "kept m m1"
proof (cases "\<not> truthy (url m) \<and> \<not> truthy (data m) \<and> truthy (path m)")
  case True
  obtain r2 m2 w2 where l: "load_data_from_path m w = (r2, m2, w2)"
    by (cases "load_data_from_path m w") auto
  have "kept m m2" using assms(1) l by (rule load_path_kept)
  moreover have "m1 = m2" using assms(2) True l
    by (cases r2) (auto simp: get_url_def)
  ultimately show ?thesis by simp
next
  case False
  then have "m1 = m" using assms(2)
    by (auto simp: get_url_def split: if_splits)
  then show ?thesis by (simp add: kept_def)
qed

lemma get_data_kept:
  assumes "truthy (format m)" and "get_data m w = (r, m1, w1)"
  shows "kept m m1"
proof -
  obtain r2 m2 w2 where l: "load_data_from_path m w = (r2, m2, w2)"
    by (cases "load_data_from_path m w") auto
  obtain r3 m3 w3 where u: "load_data_from_url m w = (r3, m3, w3)"
    by (cases "load_data_from_url m w") auto
  have "kept m m2" and "kept m m3"
    using assms(1) l u by (auto intro: load_path_kept load_url_kept)
  moreover have "m1 = m \<or> m1 = m2 \<or> m1 = m3"
    using assms(2) l u by (cases r2; cases r3) (auto simp: get_data_def split: if_splits)
  moreover have "kept m m" by (simp add: kept_def)
  ultimately show ?thesis by auto
qed

lemma get_path_kept:
  assumes "truthy (format m)" and "get_path m w = (r, m1, w1)"
  shows "kept m m1"
proof -
  obtain r3 m3 w3 where u: "load_data_from_url m w = (r3, m3, w3)"
    by (cases "load_data_from_url m w") auto
  have k3: "kept m m3" using assms(1) u by (rule load_url_kept)
  have "kept m m1"
    using assms(2) u k3
    by (cases r3) (auto simp: get_path_def kept_def Let_def split: if_splits option.splits)
  then show ?thesis .
qed

lemma call_method_kept:
  assumes "truthy (format m)" and "call_method c m w = (r, m1, w1)"
  shows "kept m m1"
proof (cases c)
  case GetUrl
  obtain r2 m2 w2 where g: "get_url m w = (r2, m2, w2)" by (cases "get_url m w") auto
  then have "m1 = m2" using assms(2) GetUrl by (cases r2) (simp_all add: answered_def)
  then show ?thesis using get_url_kept [OF assms(1) g] by simp
next
  case GetPath
  obtain r2 m2 w2 where g: "get_path m w = (r2, m2, w2)" by (cases "get_path m w") auto
  then have "m1 = m2" using assms(2) GetPath by (cases r2) (simp_all add: answered_def)
  then show ?thesis using get_path_kept [OF assms(1) g] by simp
next
  case GetData
  obtain r2 m2 w2 where g: "get_data m w = (r2, m2, w2)" by (cases "get_data m w") auto
  then have "m1 = m2" using assms(2) GetData by (cases r2) (simp_all add: answered_def)
  then show ?thesis using get_data_kept [OF assms(1) g] by simp
next
  case ToDict
  obtain r2 where g: "media_to_dict m w = (r2, m, w)"
    by (cases "kind m") (simp_all add: media_to_dict_def)
  then have "m1 = m" using assms(2) ToDict by (cases r2) (simp_all add: answered_def)
  then show ?thesis by (simp add: kept_def)
qed

lemma call_methods_kept:
  "truthy (format m) \<Longrightarrow> kept m (fst (call_methods cs m w))"
proof (induction cs arbitrary: m w)
  case Nil
  then show ?case by (simp add: kept_def)
next
  case (Cons c cs)
  obtain r m1 w1 where s: "call_method c m w = (r, m1, w1)"
    by (cases "call_method c m w") auto
  have k: "kept m m1" using Cons.prems s by (rule call_method_kept)
  then have "truthy (format m1)" using Cons.prems by (simp add: kept_def)
  then have "kept m1 (fst (call_methods cs m1 w1))" by (rule Cons.IH)
  then show ?case using k s by (simp add: kept_def)
qed

lemma get_url_synthesized:
  assumes "\<not> truthy (url m)" and "get_url m w = (Inr s, m2, w2)"
  shows "\<exists>bs. data m2 = Some bs
           \<and> s = ''data:'' @ resource_type m2 @ ''/'' @ fmt_opt (format m2) @ '';base64,''
                 @ b64encode bs"
proof -
  obtain r1 m1 w1 where l: "load_data_from_path m w = (r1, m1, w1)"
    by (cases "load_data_from_path m w") auto
  have "data_url m2 = Inr s"
    using assms l by (cases r1) (auto simp: get_url_def split: if_splits)
  then show ?thesis by (auto simp: data_url_def split: option.splits)
qed

text \<open>
  C9: for an instance of any media class built with a format, after any sequence of calls
  of \<^verbatim>\<open>get_url\<close>, \<^verbatim>\<open>get_path\<close>, \<^verbatim>\<open>get_data\<close> and \<^verbatim>\<open>to_dict\<close> the resource type
  is still \<^verbatim>\<open>media\<close> and the format is the one given; whenever \<^verbatim>\<open>get_url\<close> then returns
  a value on an instance without URL, it is \<^verbatim>\<open>data:media/\<close>, the format,
  \<^verbatim>\<open>;base64,\<close> and the base64 text of the bytes held.
\<close>

theorem resource_type_stays_media:
  assumes "MediaMessage_init k u p d f = Inr m" and "truthy f"
    and "call_methods cs m w = (m1, w1)"
  shows "resource_type m1 = ''media'' \<and> format m1 = f
    \<and> (\<forall>s m2 w2. \<not> truthy (url m1) \<and> get_url m1 w1 = (Inr s, m2, w2) \<longrightarrow>
          (\<exists>bs. data m2 = Some bs
             \<and> s = ''data:media/'' @ fmt_opt f @ '';base64,'' @ b64encode bs))"
proof -
  have i: "resource_type m = ''media''" and j: "format m = f"
    using assms(1)
    by (auto simp: MediaMessage_init_def from_url_def from_path_def from_data_def Let_def
        split: if_splits)
  have t: "truthy (format m)" using assms(2) j by simp
  have k: "kept m m1" using call_methods_kept [OF t, of cs w] assms(3) by simp
  then have a: "resource_type m1 = ''media''" and b: "format m1 = f"
    using i j by (simp_all add: kept_def)
  have c: "\<exists>bs. data m2 = Some bs
             \<and> s = ''data:media/'' @ fmt_opt f @ '';base64,'' @ b64encode bs"
    if h: "\<not> truthy (url m1) \<and> get_url m1 w1 = (Inr s, m2, w2)" for s m2 w2
  proof -
    have t1: "truthy (format m1)" using assms(2) b by simp
    have "kept m1 m2" using t1 h by (auto intro: get_url_kept)
    then have "resource_type m2 = ''media''" and "format m2 = f"
      using a b by (simp_all add: kept_def)
    then show ?thesis using get_url_synthesized [of m1 w1 s m2 w2] h by simp
  qed
  show ?thesis using a b c by blast
qed

lemma run_bytes_image:
  "call_methods [GetData, GetPath, ToDict] bytes_image example_world
     = (bytes_image\<lparr>path := Some ''/tmp/tmp''\<rparr>,
        example_world\<lparr>files := (files example_world)(''/tmp/tmp'' \<mapsto> [77, 97, 110]), temps := 1\<rparr>)"
  by (simp add: get_data_def get_path_def return_data_def media_to_dict_def answered_def
      truthy_def bytes_image_def example_world_def tmp_name_def Let_def fmt_opt_def)

theorem resource_type_stays_media_witness:
  "MediaMessage_init Image None None (Some [77, 97, 110]) (Some ''png'') = Inr bytes_image
   \<and> truthy (Some ''png'')
   \<and> call_methods [GetData, GetPath, ToDict] bytes_image example_world
       = (bytes_image\<lparr>path := Some ''/tmp/tmp''\<rparr>,
          example_world\<lparr>files := (files example_world)(''/tmp/tmp'' \<mapsto> [77, 97, 110]),
                          temps := 1\<rparr>)
   \<and> resource_type (bytes_image\<lparr>path := Some ''/tmp/tmp''\<rparr>) = ''media''
   \<and> format (bytes_image\<lparr>path := Some ''/tmp/tmp''\<rparr>) = Some ''png''"
proof -
  have t: "truthy (Some ''png'')" by (simp add: truthy_def)
  show ?thesis
    using init_bytes_image t run_bytes_image
      resource_type_stays_media [OF init_bytes_image t run_bytes_image]
    by simp
qed

section \<open>Empty bytes\<close>

lemma get_data_empty:
  "fst (get_data (m\<lparr>data := Some []\<rparr>) w) = fst (get_data (m\<lparr>data := None\<rparr>) w)
   \<and> snd (snd (get_data (m\<lparr>data := Some []\<rparr>) w)) = snd (snd (get_data (m\<lparr>data := None\<rparr>) w))"
  by (auto simp: get_data_def load_data_from_path_def load_data_from_url_def detect_format_def
      return_data_def truthy_def Let_def split: option.splits sum.splits prod.splits)

lemma get_path_empty:
  "fst (get_path (m\<lparr>data := Some []\<rparr>) w) = fst (get_path (m\<lparr>data := None\<rparr>) w)
   \<and> snd (snd (get_path (m\<lparr>data := Some []\<rparr>) w)) = snd (snd (get_path (m\<lparr>data := None\<rparr>) w))"
  by (auto simp: get_path_def load_data_from_url_def detect_format_def
      truthy_def Let_def split: option.splits sum.splits prod.splits)

lemma get_url_empty:
  "fst (get_url (m\<lparr>data := Some []\<rparr>) w) = fst (get_url (m\<lparr>data := None\<rparr>) w)
   \<and> snd (snd (get_url (m\<lparr>data := Some []\<rparr>) w)) = snd (snd (get_url (m\<lparr>data := None\<rparr>) w))"
  by (auto simp: get_url_def load_data_from_path_def detect_format_def data_url_def
      truthy_def Let_def split: option.splits sum.splits prod.splits)

lemma empty_no_source:
  assumes "data m = Some []" and "\<not> truthy (path m)" and "\<not> truthy (url m)"
  shows "get_data m w = (Inl (ValueError ''No available media source''), m, w)"
    and "get_path m w = (Inl (ValueError ''No available media source''), m, w)"
    and "get_url m w = (Inl (ValueError ''No available media source''), m, w)"
  using assms by (simp_all add: get_data_def get_path_def get_url_def truthy_def)

lemma empty_path_unreadable:
  assumes "data m = Some []" and "path m = Some q" and "q \<noteq> []" and "files w q = None"
  shows "get_data m w = (Inl (IOError q), m, w\<lparr>reads := Suc (reads w)\<rparr>)"
    and "\<not> truthy (url m) \<Longrightarrow> get_url m w = (Inl (IOError q), m, w\<lparr>reads := Suc (reads w)\<rparr>)"
  using assms
  by (simp_all add: get_data_def get_url_def load_data_from_path_def truthy_def Let_def)

lemma empty_path_read:
  assumes "data m = Some []" and "path m = Some q" and "q \<noteq> []" and "files w q = Some bs"
  shows "\<exists>m1. get_data m w = (Inr bs, m1, w\<lparr>reads := Suc (reads w)\<rparr>) \<and> data m1 = Some bs"
    and "\<not> truthy (url m) \<Longrightarrow>
           \<exists>m1. get_url m w = (data_url m1, m1, w\<lparr>reads := Suc (reads w)\<rparr>) \<and> data m1 = Some bs"
  using assms
  by (auto simp: get_data_def get_url_def load_data_from_path_def detect_format_def
      return_data_def truthy_def Let_def)

lemma empty_url_unreachable:
  assumes "data m = Some []" and "\<not> truthy (path m)" and "url m = Some q" and "q \<noteq> []"
    and "remote w q = None"
  shows "get_data m w = (Inl (IOError q), m, w\<lparr>fetches := Suc (fetches w)\<rparr>)"
    and "get_path m w = (Inl (IOError q), m, w\<lparr>fetches := Suc (fetches w)\<rparr>)"
  using assms
  by (simp_all add: get_data_def get_path_def load_data_from_url_def truthy_def Let_def)

lemma empty_url_fetched:
  assumes "data m = Some []" and "\<not> truthy (path m)" and "url m = Some q" and "q \<noteq> []"
    and "remote w q = Some bs"
  shows "\<exists>m1. get_data m w = (Inr bs, m1, w\<lparr>fetches := Suc (fetches w)\<rparr>) \<and> data m1 = Some bs"
    and "\<exists>m1. get_path m w
               = (Inr (tmp_name (temps w)), m1,
                  w\<lparr>fetches := Suc (fetches w), files := (files w)(tmp_name (temps w) \<mapsto> bs),
                    temps := Suc (temps w)\<rparr>)
             \<and> data m1 = Some bs \<and> path m1 = Some (tmp_name (temps w))"
  using assms
  by (auto simp: get_data_def get_path_def load_data_from_url_def detect_format_def
      return_data_def truthy_def Let_def)

text \<open>
  C10: construction from empty bytes and a format raises the construction error. On an
  instance whose \<^verbatim>\<open>data\<close> is the empty byte string, \<^verbatim>\<open>get_data\<close>, \<^verbatim>\<open>get_path\<close> and
  \<^verbatim>\<open>get_url\<close> do what they do when \<^verbatim>\<open>data\<close> is \<^verbatim>\<open>None\<close>: with neither path nor URL
  they raise \<^verbatim>\<open>ValueError\<close>; with a path, \<^verbatim>\<open>get_data\<close>, and \<^verbatim>\<open>get_url\<close> on an instance
  without URL, read the file again; with a URL and no path, \<^verbatim>\<open>get_data\<close> and
  \<^verbatim>\<open>get_path\<close> fetch it again. The empty bytes are never returned as a cached value.
\<close>

theorem empty_bytes_are_absent:
  "MediaMessage_init k None None (Some []) f
     = Inl (ValueError ''Must provide either url, path, or data + format.'')
   \<and> fst (get_data (m\<lparr>data := Some []\<rparr>) w) = fst (get_data (m\<lparr>data := None\<rparr>) w)
   \<and> snd (snd (get_data (m\<lparr>data := Some []\<rparr>) w)) = snd (snd (get_data (m\<lparr>data := None\<rparr>) w))
   \<and> fst (get_path (m\<lparr>data := Some []\<rparr>) w) = fst (get_path (m\<lparr>data := None\<rparr>) w)
   \<and> snd (snd (get_path (m\<lparr>data := Some []\<rparr>) w)) = snd (snd (get_path (m\<lparr>data := None\<rparr>) w))
   \<and> fst (get_url (m\<lparr>data := Some []\<rparr>) w) = fst (get_url (m\<lparr>data := None\<rparr>) w)
   \<and> snd (snd (get_url (m\<lparr>data := Some []\<rparr>) w)) = snd (snd (get_url (m\<lparr>data := None\<rparr>) w))
   \<and> (data m = Some [] \<longrightarrow>
        (\<not> truthy (path m) \<and> \<not> truthy (url m) \<longrightarrow>
            get_data m w = (Inl (ValueError ''No available media source''), m, w)
          \<and> get_path m w = (Inl (ValueError ''No available media source''), m, w)
          \<and> get_url m w = (Inl (ValueError ''No available media source''), m, w))
      \<and> (\<forall>q. path m = Some q \<and> q \<noteq> [] \<longrightarrow>
            (files w q = None \<longrightarrow>
                get_data m w = (Inl (IOError q), m, w\<lparr>reads := Suc (reads w)\<rparr>)
              \<and> (\<not> truthy (url m) \<longrightarrow>
                   get_url m w = (Inl (IOError q), m, w\<lparr>reads := Suc (reads w)\<rparr>)))
          \<and> (\<forall>bs. files w q = Some bs \<longrightarrow>
                (\<exists>m1. get_data m w = (Inr bs, m1, w\<lparr>reads := Suc (reads w)\<rparr>)
                   \<and> data m1 = Some bs)
              \<and> (\<not> truthy (url m) \<longrightarrow>
                   (\<exists>m1. get_url m w = (data_url m1, m1, w\<lparr>reads := Suc (reads w)\<rparr>)
                      \<and> data m1 = Some bs))))
      \<and> (\<forall>q. \<not> truthy (path m) \<and> url m = Some q \<and> q \<noteq> [] \<longrightarrow>
            (remote w q = None \<longrightarrow>
                get_data m w = (Inl (IOError q), m, w\<lparr>fetches := Suc (fetches w)\<rparr>)
              \<and> get_path m w = (Inl (IOError q), m, w\<lparr>fetches := Suc (fetches w)\<rparr>))
          \<and> (\<forall>bs. remote w q = Some bs \<longrightarrow>
                (\<exists>m1. get_data m w = (Inr bs, m1, w\<lparr>fetches := Suc (fetches w)\<rparr>)
                   \<and> data m1 = Some bs)
              \<and> (\<exists>m1. get_path m w
                         = (Inr (tmp_name (temps w)), m1,
                            w\<lparr>fetches := Suc (fetches w),
                              files := (files w)(tmp_name (temps w) \<mapsto> bs),
                              temps := Suc (temps w)\<rparr>)
                   \<and> data m1 = Some bs \<and> path m1 = Some (tmp_name (temps w))))))"
proof -
  have i: "MediaMessage_init k None None (Some []) f
     = Inl (ValueError ''Must provide either url, path, or data + format.'')"
    by (simp add: MediaMessage_init_def truthy_def)
  note e = get_data_empty [of m w] get_path_empty [of m w] get_url_empty [of m w]
  have a: "get_data m w = (Inl (ValueError ''No available media source''), m, w)
          \<and> get_path m w = (Inl (ValueError ''No available media source''), m, w)
          \<and> get_url m w = (Inl (ValueError ''No available media source''), m, w)"
    if "data m = Some []" "\<not> truthy (path m) \<and> \<not> truthy (url m)"
    using that empty_no_source [of m w] by blast
  have b: "(files w q = None \<longrightarrow>
                get_data m w = (Inl (IOError q), m, w\<lparr>reads := Suc (reads w)\<rparr>)
              \<and> (\<not> truthy (url m) \<longrightarrow>
                   get_url m w = (Inl (IOError q), m, w\<lparr>reads := Suc (reads w)\<rparr>)))
          \<and> (\<forall>bs. files w q = Some bs \<longrightarrow>
                (\<exists>m1. get_data m w = (Inr bs, m1, w\<lparr>reads := Suc (reads w)\<rparr>)
                   \<and> data m1 = Some bs)
              \<and> (\<not> truthy (url m) \<longrightarrow>
                   (\<exists>m1. get_url m w = (data_url m1, m1, w\<lparr>reads := Suc (reads w)\<rparr>)
                      \<and> data m1 = Some bs)))"
    if "data m = Some []" "path m = Some q \<and> q \<noteq> []" for q
    using that empty_path_unreadable [of m q w] empty_path_read [of m q w] by blast
  have c: "(remote w q = None \<longrightarrow>
                get_data m w = (Inl (IOError q), m, w\<lparr>fetches := Suc (fetches w)\<rparr>)
              \<and> get_path m w = (Inl (IOError q), m, w\<lparr>fetches := Suc (fetches w)\<rparr>))
          \<and> (\<forall>bs. remote w q = Some bs \<longrightarrow>
                (\<exists>m1. get_data m w = (Inr bs, m1, w\<lparr>fetches := Suc (fetches w)\<rparr>)
                   \<and> data m1 = Some bs)
              \<and> (\<exists>m1. get_path m w
                         = (Inr (tmp_name (temps w)), m1,
                            w\<lparr>fetches := Suc (fetches w),
                              files := (files w)(tmp_name (temps w) \<mapsto> bs),
                              temps := Suc (temps w)\<rparr>)
                   \<and> data m1 = Some bs \<and> path m1 = Some (tmp_name (temps w))))"
    if "data m = Some []" "\<not> truthy (path m) \<and> url m = Some q \<and> q \<noteq> []" for q
    using that empty_url_unreachable [of m q w] empty_url_fetched [of m q w] by blast
  show ?thesis
    apply (intro conjI impI allI)
    using i e a b c by blast+
qed

theorem empty_bytes_are_absent_witness:
  "data empty_loaded = Some [] \<and> path empty_loaded = Some ''/srv/empty.png''
   \<and> files small_file ''/srv/empty.png'' = Some [77, 97, 110]
   \<and> (\<exists>m1. get_data empty_loaded small_file
              = (Inr [77, 97, 110], m1, small_file\<lparr>reads := Suc (reads small_file)\<rparr>)
         \<and> data m1 = Some [77, 97, 110])"
proof -
  have d: "data empty_loaded = Some []" and p: "path empty_loaded = Some ''/srv/empty.png''"
    by (simp_all add: empty_loaded_def)
  have f: "files small_file ''/srv/empty.png'' = Some [77, 97, 110]"
    by (simp add: small_file_def)
  have n: "''/srv/empty.png'' \<noteq> []" by simp
  note t = empty_bytes_are_absent [where m = empty_loaded and w = small_file and k = Image
      and f = None]
  have "\<exists>m1. get_data empty_loaded small_file
              = (Inr [77, 97, 110], m1, small_file\<lparr>reads := Suc (reads small_file)\<rparr>)
         \<and> data m1 = Some [77, 97, 110]"
    using t d p f n by blast
  then show ?thesis using d p f by blast
qed

section \<open>Resolving a media resource once\<close>

lemma get_data_held:
  "truthy (data m) \<Longrightarrow> \<exists>bs. get_data m w = (Inr bs, m, w) \<and> data m = Some bs"
  by (auto simp: get_data_def return_data_def truthy_def split: option.splits)

lemma get_path_held:
  "truthy (path m) \<Longrightarrow> get_path m w = (Inr (fmt_opt (path m)), m, w)"
  by (simp add: get_path_def)

lemma get_url_held:
  "truthy (url m) \<Longrightarrow> get_url m w = (Inr (fmt_opt (url m)), m, w)"
  by (simp add: get_url_def)

lemma get_url_from_data:
  "\<not> truthy (url m) \<Longrightarrow> truthy (data m) \<Longrightarrow> \<exists>s. get_url m w = (Inr s, m, w)"
  by (auto simp: get_url_def data_url_def truthy_def split: option.splits)

lemma get_path_from_data:
  "\<not> truthy (path m) \<Longrightarrow> data m = Some bs \<Longrightarrow> bs \<noteq> [] \<Longrightarrow>
     get_path m w = (Inr (tmp_name (temps w)), m\<lparr>path := Some (tmp_name (temps w))\<rparr>,
                     w\<lparr>files := (files w)(tmp_name (temps w) \<mapsto> bs), temps := Suc (temps w)\<rparr>)"
  by (simp add: get_path_def truthy_def Let_def)

lemma get_data_from_path:
  "\<not> truthy (data m) \<Longrightarrow> path m = Some q \<Longrightarrow> q \<noteq> [] \<Longrightarrow> files w q = Some bs \<Longrightarrow>
     \<exists>m1. get_data m w = (Inr bs, m1, w\<lparr>reads := Suc (reads w)\<rparr>) \<and> data m1 = Some bs
       \<and> path m1 = path m \<and> url m1 = url m"
  by (auto simp: get_data_def load_data_from_path_def detect_format_def return_data_def
      truthy_def Let_def)

lemma get_data_from_url:
  "\<not> truthy (data m) \<Longrightarrow> \<not> truthy (path m) \<Longrightarrow> url m = Some q \<Longrightarrow> q \<noteq> []
     \<Longrightarrow> remote w q = Some bs \<Longrightarrow>
     \<exists>m1. get_data m w = (Inr bs, m1, w\<lparr>fetches := Suc (fetches w)\<rparr>) \<and> data m1 = Some bs
       \<and> path m1 = path m \<and> url m1 = url m"
  by (auto simp: get_data_def load_data_from_url_def detect_format_def return_data_def
      truthy_def Let_def)

lemma tmp_name_truthy: "truthy (Some (tmp_name n))"
  by (simp add: truthy_def tmp_name_def)

lemma get_data_first:
  assumes "held m = 1" and "readable m w"
  shows "\<exists>bs m1 w1. get_data m w = (Inr bs, m1, w1) \<and> data m1 = Some bs \<and> bs \<noteq> []
           \<and> path m1 = path m \<and> url m1 = url m \<and> temps w1 = temps w
           \<and> reads w1 + fetches w1 = reads w + fetches w + (if truthy (data m) then 0 else 1)"
proof (cases "truthy (data m)")
  case True
  then show ?thesis using get_data_held [OF True, of w] by (auto simp: truthy_def)
next
  case False
  show ?thesis
  proof (cases "truthy (path m)")
    case True
    then obtain q where q: "path m = Some q" "q \<noteq> []"
      by (auto simp: truthy_def split: option.splits)
    then obtain bs where bs: "files w q = Some bs" "bs \<noteq> []"
      using assms(2) False True by (auto simp: readable_def truthy_def fmt_opt_def split: option.splits)
    show ?thesis
      using get_data_from_path [OF False q bs(1)] bs(2) False by auto
  next
    case np: False
    then have "truthy (url m)" using assms(1) False by (auto simp: held_def split: if_splits)
    then obtain q where q: "url m = Some q" "q \<noteq> []"
      by (auto simp: truthy_def split: option.splits)
    then obtain bs where bs: "remote w q = Some bs" "bs \<noteq> []"
      using assms(2) False np by (auto simp: readable_def truthy_def fmt_opt_def split: option.splits)
    show ?thesis
      using get_data_from_url [OF False np q bs(1)] bs(2) False by auto
  qed
qed

lemma get_path_second:
  assumes "data m = Some bs" and "bs \<noteq> []"
  shows "\<exists>q m2 w2. get_path m w = (Inr q, m2, w2) \<and> path m2 = Some q \<and> q \<noteq> []
           \<and> data m2 = data m \<and> url m2 = url m
           \<and> reads w2 = reads w \<and> fetches w2 = fetches w"
proof (cases "truthy (path m)")
  case True
  then show ?thesis using get_path_held [OF True, of w]
    by (auto simp: truthy_def fmt_opt_def split: option.splits)
next
  case False
  show ?thesis using get_path_from_data [OF False assms, of w] by (simp add: tmp_name_def)
qed

lemma get_url_settled:
  assumes "data m = Some bs" and "bs \<noteq> []"
  shows "\<exists>s. get_url m w = (Inr s, m, w)"
proof (cases "truthy (url m)")
  case True
  then show ?thesis by (simp add: get_url_held)
next
  case False
  have "truthy (data m)" using assms by (simp add: truthy_def)
  then show ?thesis using get_url_from_data [OF False] by simp
qed

text \<open>
  C2, amended: for an instance built by the constructor whose source, when it needs one,
  can be read and is not empty, \<^verbatim>\<open>get_data\<close>, \<^verbatim>\<open>get_path\<close> and \<^verbatim>\<open>get_url\<close> all return
  a value; called again, each returns the same value and changes neither the instance nor
  the environment; and the three calls together make one fetch or read when the instance was
  built from a URL or a path, and none when it was built from bytes.
\<close>

theorem resolved_once_then_cached:
  assumes "MediaMessage_init k u p d f = Inr m" and "readable m w"
    and "resolve_all m w = (r1, r2, r3, m3, w3)"
  shows "(\<exists>bs q s. r1 = Inr bs \<and> r2 = Inr q \<and> r3 = Inr s)
    \<and> get_data m3 w3 = (r1, m3, w3)
    \<and> get_path m3 w3 = (r2, m3, w3)
    \<and> get_url m3 w3 = (r3, m3, w3)
    \<and> counted w3 = counted w + (if truthy (data m) then 0 else 1)"
proof -
  have h: "held m = 1" using assms(1) by (rule init_held)
  obtain bs m1 w1 where 1: "get_data m w = (Inr bs, m1, w1)" "data m1 = Some bs" "bs \<noteq> []"
      "reads w1 + fetches w1 = reads w + fetches w + (if truthy (data m) then 0 else 1)"
    using get_data_first [OF h assms(2)] by blast
  obtain q m2 w2 where 2: "get_path m1 w1 = (Inr q, m2, w2)" "path m2 = Some q" "q \<noteq> []"
      "data m2 = data m1" "reads w2 = reads w1" "fetches w2 = fetches w1"
    using get_path_second [OF 1(2,3), of w1] by blast
  have d2: "data m2 = Some bs" using 1(2) 2(4) by simp
  obtain s where 3: "get_url m2 w2 = (Inr s, m2, w2)"
    using get_url_settled [OF d2 1(3), of w2] by blast
  have r: "r1 = Inr bs" "r2 = Inr q" "r3 = Inr s" "m3 = m2" "w3 = w2"
    using assms(3) 1(1) 2(1) 3 by (simp_all add: resolve_all_def)
  have td: "truthy (data m2)" and tp: "truthy (path m2)"
    using d2 1(3) 2(2,3) by (simp_all add: truthy_def)
  have a: "get_data m2 w2 = (Inr bs, m2, w2)"
    using get_data_held [OF td, of w2] d2 by simp
  have b: "get_path m2 w2 = (Inr q, m2, w2)"
    using get_path_held [OF tp, of w2] 2(2) by (simp add: fmt_opt_def)
  show ?thesis using r a b 3 1(4) 2(5,6) by (simp add: counted_def)
qed

lemma init_example_image:
  "MediaMessage_init Image (Some ''https://example.com/i.png'') None None None = Inr example_image"
  by (simp add: MediaMessage_init_def truthy_def from_url_def example_image_def)

lemma after_resolve_bytes:
  "after_resolve bytes_image example_world
     = (bytes_image\<lparr>path := Some ''/tmp/tmp''\<rparr>,
        example_world\<lparr>files := (files example_world)(''/tmp/tmp'' \<mapsto> [77, 97, 110]), temps := 1\<rparr>)"
  by (simp add: after_resolve_def resolve_all_def get_data_def get_path_def get_url_def
      return_data_def data_url_def truthy_def bytes_image_def example_world_def tmp_name_def
      Let_def)

lemma resolve_all_empty_remote:
  "resolve_all example_image empty_remote
     = (Inr [], Inr ''/tmp/tmp'', Inr ''https://example.com/i.png'',
        example_image\<lparr>path := Some ''/tmp/tmp'', data := Some [], format := Some ''octet-stream'',
                        resource_type := ''application''\<rparr>,
        empty_remote\<lparr>files := (files empty_remote)(''/tmp/tmp'' \<mapsto> []), fetches := 2,
                        temps := 1\<rparr>)"
  by (simp add: resolve_all_def get_data_def get_path_def get_url_def
      load_data_from_url_def detect_format_def
      return_data_def truthy_def fmt_opt_def example_image_def example_world_def empty_remote_def
      tmp_name_def Let_def)

lemma reread_after_empty:
  "counted (snd (snd (get_data
      (example_image\<lparr>path := Some ''/tmp/tmp'', data := Some [], format := Some ''octet-stream'',
                      resource_type := ''application''\<rparr>)
      (empty_remote\<lparr>files := (files empty_remote)(''/tmp/tmp'' \<mapsto> []), fetches := 2,
                      temps := 1\<rparr>)))) = 3"
  by (simp add: counted_def get_data_def load_data_from_path_def detect_format_def
      return_data_def truthy_def example_image_def example_world_def empty_remote_def Let_def)

text \<open>
  C2, as stated, fails. An image built from bytes is resolved without any fetch or read, so
  the counter is 0 and not 1. An image built from a URL whose remote content is empty is
  fetched by \<^verbatim>\<open>get_data\<close> and again by \<^verbatim>\<open>get_path\<close>, and a second \<^verbatim>\<open>get_data\<close>
  reads the temporary file: empty bytes are not taken for a cached value.
\<close>

theorem resolve_counter_counterexample:
  "MediaMessage_init Image None None (Some [77, 97, 110]) (Some ''png'') = Inr bytes_image
   \<and> counted example_world = 0
   \<and> counted (snd (after_resolve bytes_image example_world)) = 0
   \<and> MediaMessage_init Image (Some ''https://example.com/i.png'') None None None = Inr example_image
   \<and> counted empty_remote = 0
   \<and> counted (snd (after_resolve example_image empty_remote)) = 2
   \<and> counted (snd (snd (get_data (fst (after_resolve example_image empty_remote))
                                   (snd (after_resolve example_image empty_remote))))) = 3"
proof -
  have a: "counted example_world = 0" "counted empty_remote = 0"
    by (simp_all add: counted_def example_world_def empty_remote_def)
  have b: "counted (snd (after_resolve bytes_image example_world)) = 0"
    unfolding after_resolve_bytes by (simp add: counted_def example_world_def)
  have c: "after_resolve example_image empty_remote
     = (example_image\<lparr>path := Some ''/tmp/tmp'', data := Some [], format := Some ''octet-stream'',
                        resource_type := ''application''\<rparr>,
        empty_remote\<lparr>files := (files empty_remote)(''/tmp/tmp'' \<mapsto> []), fetches := 2,
                        temps := 1\<rparr>)"
    by (simp add: after_resolve_def resolve_all_empty_remote)
  have d: "counted (snd (after_resolve example_image empty_remote)) = 2"
    unfolding c by (simp add: counted_def example_world_def empty_remote_def)
  have e: "counted (snd (snd (get_data (fst (after_resolve example_image empty_remote))
                                   (snd (after_resolve example_image empty_remote))))) = 3"
    unfolding c using reread_after_empty by simp
  show ?thesis using init_bytes_image init_example_image a b d e by blast
qed

lemma resolve_all_one_remote:
  "resolve_all example_image one_remote
     = (Inr [77, 97, 110], Inr ''/tmp/tmp'', Inr ''https://example.com/i.png'',
        example_image\<lparr>path := Some ''/tmp/tmp'', data := Some [77, 97, 110],
                        format := Some ''octet-stream'', resource_type := ''application''\<rparr>,
        one_remote\<lparr>files := (files one_remote)(''/tmp/tmp'' \<mapsto> [77, 97, 110]), fetches := 1,
                      temps := 1\<rparr>)"
  by (simp add: resolve_all_def get_data_def get_path_def get_url_def
      load_data_from_url_def detect_format_def
      return_data_def truthy_def fmt_opt_def example_image_def example_world_def one_remote_def
      tmp_name_def Let_def)

theorem resolved_once_then_cached_witness:
  "MediaMessage_init Image (Some ''https://example.com/i.png'') None None None = Inr example_image
   \<and> readable example_image one_remote
   \<and> get_data (fst (after_resolve example_image one_remote))
               (snd (after_resolve example_image one_remote))
       = (Inr [77, 97, 110], after_resolve example_image one_remote)
   \<and> counted (snd (after_resolve example_image one_remote)) = counted one_remote + 1"
proof -
  have r: "readable example_image one_remote"
    by (simp add: readable_def truthy_def fmt_opt_def example_image_def one_remote_def)
  have d: "\<not> truthy (data example_image)" by (simp add: truthy_def example_image_def)
  show ?thesis
    using init_example_image r d
      resolved_once_then_cached [OF init_example_image r resolve_all_one_remote]
    by (simp add: after_resolve_def resolve_all_one_remote)
qed

end
